theory Spec2Isabelle
  imports Main "HOL-Library.Sublist"
begin

section \<open>Python values and string primitives\<close>

text \<open>
  The MCP server (\<^verbatim>\<open>backend/mcp_server/server.py\<close>) receives its tool arguments as a
  JSON object. The values that matter to the handlers are JSON null, integers and strings;
  they are modelled by \<open>pyval\<close>. Booleans, floats, arrays and nested objects are not
  modelled. A Python \<^verbatim>\<open>str\<close> is a \<open>string\<close> whose characters are read as the code
  points 0 to 255; code points from 256 on are not modelled. The whitespace class and the
  upper-casing below are Python's tables on this range.
\<close>

datatype pyval = PNone | PInt int | PStr string

datatype py_exception =
    PyodbcError string
  | AttributeError string
  | TypeError string
  | IndexError string
  | ConnectionResetError string
  | OtherException string

text \<open>\<^verbatim>\<open>str(e)\<close> of an exception is its message.\<close>

fun str_exception :: "py_exception \<Rightarrow> string" where
  "str_exception (PyodbcError m) = m"
| "str_exception (AttributeError m) = m"
| "str_exception (TypeError m) = m"
| "str_exception (IndexError m) = m"
| "str_exception (ConnectionResetError m) = m"
| "str_exception (OtherException m) = m"

text \<open>Truthiness, as tested by \<^verbatim>\<open>if not x\<close>.\<close>

fun py_truthy :: "pyval \<Rightarrow> bool" where
  "py_truthy PNone = False"
| "py_truthy (PInt n) = (n \<noteq> 0)"
| "py_truthy (PStr s) = (s \<noteq> [])"

fun type_name :: "pyval \<Rightarrow> string" where
  "type_name PNone = ''NoneType''"
| "type_name (PInt n) = ''int''"
| "type_name (PStr s) = ''str''"

text \<open>A name between apostrophes, as Python's own error messages print it.\<close>

definition quoted :: "string \<Rightarrow> string" where
  "quoted s = CHR 0x27 # s @ [CHR 0x27]"

text \<open>Decimal rendering of integers, as an f-string does it.\<close>

definition digit_char :: "nat \<Rightarrow> char" where
  "digit_char d = char_of (48 + d)"

function str_nat :: "nat \<Rightarrow> string" where
  "str_nat n = (if n < 10 then [digit_char n] else str_nat (n div 10) @ [digit_char (n mod 10)])"
  by pat_completeness auto
termination
  by (relation "measure (\<lambda>n. n)") auto

declare str_nat.simps [simp del]

definition str_int :: "int \<Rightarrow> string" where
  "str_int i = (if i < 0 then CHR ''-'' # str_nat (nat (- i)) else str_nat (nat i))"

fun py_str :: "pyval \<Rightarrow> string" where
  "py_str PNone = ''None''"
| "py_str (PInt n) = str_int n"
| "py_str (PStr s) = s"

text \<open>
  \<^verbatim>\<open>str.strip()\<close> and the regular-expression class \<^verbatim>\<open>\s\<close> use the same whitespace
  test; below 256 it holds for TAB, LF, VT, FF, CR, the separators 0x1C to 0x1F, the
  space, NEL (0x85) and the no-break space (0xA0).
\<close>

definition py_isspace :: "char \<Rightarrow> bool" where
  "py_isspace c = (c \<in> {CHR 0x09, CHR 0x0A, CHR 0x0B, CHR 0x0C, CHR 0x0D,
                         CHR 0x1C, CHR 0x1D, CHR 0x1E, CHR 0x1F, CHR 0x20,
                         CHR 0x85, CHR 0xA0})"

definition py_strip :: "string \<Rightarrow> string" where
  "py_strip s = rev (dropWhile py_isspace (rev (dropWhile py_isspace s)))"

text \<open>
  \<^verbatim>\<open>str.upper()\<close>, character by character: the letters a to z and the accented
  letters 0xE0 to 0xFE (but not the division sign 0xF7) move down by 32. Three characters
  have an upper case that is not one code point below 256: the micro sign 0xB5, the
  sharp s 0xDF (it becomes SS) and the y with diaeresis 0xFF. They are left unchanged
  here, and a text containing one of them is not \<open>modelled_text\<close>.
\<close>

definition upper_char :: "char \<Rightarrow> char" where
  "upper_char c =
     (let n = (of_char c :: nat)
      in if (97 \<le> n \<and> n \<le> 122) \<or> (224 \<le> n \<and> n \<le> 254 \<and> n \<noteq> 247)
         then char_of (n - 32) else c)"

definition modelled_char :: "char \<Rightarrow> bool" where
  "modelled_char c = (c \<notin> {CHR 0xB5, CHR 0xDF, CHR 0xFF})"

definition modelled_text :: "string \<Rightarrow> bool" where
  "modelled_text s = list_all modelled_char s"

definition py_upper :: "string \<Rightarrow> string" where
  "py_upper s = map upper_char s"

text \<open>\<^verbatim>\<open>s.find(sub)\<close>: the index of the first occurrence, or -1.\<close>

fun find_from :: "int \<Rightarrow> string \<Rightarrow> string \<Rightarrow> int" where
  "find_from i sub [] = (if sub = [] then i else - 1)"
| "find_from i sub (c # cs) = (if prefix sub (c # cs) then i else find_from (i + 1) sub cs)"

definition py_find :: "string \<Rightarrow> string \<Rightarrow> int" where
  "py_find s sub = find_from 0 sub s"

text \<open>\<^verbatim>\<open>sub in s\<close>: substring containment.\<close>

fun py_in :: "string \<Rightarrow> string \<Rightarrow> bool" where
  "py_in sub [] = (sub = [])"
| "py_in sub (c # cs) = (prefix sub (c # cs) \<or> py_in sub cs)"

text \<open>
  \<^verbatim>\<open>re.split(cls, s)\<close> for a one-character class: every delimiter character ends a
  piece, so neighbouring delimiters give empty pieces and the result is never empty.
\<close>

fun re_split :: "(char \<Rightarrow> bool) \<Rightarrow> string \<Rightarrow> string list" where
  "re_split d [] = [[]]"
| "re_split d (c # cs) =
     (if d c then [] # re_split d cs
      else (case re_split d cs of
              [] \<Rightarrow> [[c]]
            | t # ts \<Rightarrow> (c # t) # ts))"

text \<open>The class \<^verbatim>\<open>[\s\n\t;()]\<close> of line 132.\<close>

definition token_delimiter :: "char \<Rightarrow> bool" where
  "token_delimiter c =
     (py_isspace c \<or> c = CHR 0x0A \<or> c = CHR 0x09 \<or> c = CHR '';'' \<or> c = CHR ''('' \<or> c = CHR '')'')"

text \<open>\<^verbatim>\<open>arguments.get(key, default)\<close> and \<^verbatim>\<open>arguments.get(key)\<close>.\<close>

definition dict_get :: "(string \<rightharpoonup> pyval) \<Rightarrow> string \<Rightarrow> pyval \<Rightarrow> pyval" where
  "dict_get d k dflt = (case d k of None \<Rightarrow> dflt | Some v \<Rightarrow> v)"

section \<open>The data store, seen from the tools\<close>

text \<open>
  The connection manager and the ODBC driver are outside the repository. A \<open>database\<close>
  gives what they answer: whether \<^verbatim>\<open>create_connection()\<close> returns or raises, what the
  parametrised INFORMATION_SCHEMA query of \<^verbatim>\<open>describe_table\<close> returns for a schema and
  a table, and what executing a statement and fetching its rows returns. A cell with
  an \<^verbatim>\<open>isoformat\<close> method is a \<open>CDateTime\<close> carrying that method's result. Every
  call to the driver is recorded as a \<open>db_event\<close>, in order.
\<close>

datatype cell = CNull | CInt int | CStr string | CDateTime string

record column_row =
  COLUMN_NAME :: cell
  DATA_TYPE :: cell
  CHARACTER_MAXIMUM_LENGTH :: cell
  IS_NULLABLE :: cell
  COLUMN_DEFAULT :: cell
  IS_PRIMARY_KEY :: cell

record result_set =
  description :: "string list option"
  fetched :: "cell list list"

record database =
  create_connection :: "py_exception + unit"
  information_schema_columns :: "pyval \<Rightarrow> pyval \<Rightarrow> py_exception + column_row list"
  execute_query :: "string \<Rightarrow> py_exception + result_set"

datatype db_event =
    Connect
  | ExecuteColumns pyval pyval
  | Execute string
  | Close

section \<open>Tool results\<close>

record col_info =
  ci_name :: cell
  ci_type :: cell
  ci_max_length :: cell
  ci_nullable :: bool
  ci_default :: cell
  ci_is_primary_key :: bool

datatype tool_result =
    ErrorResult string
  | DescribeSuccess pyval pyval "col_info list" cell
  | ReadSuccess "string list" nat "(string \<times> cell) list list" string

text \<open>
  \<open>ErrorResult m\<close> is the dictionary \<^verbatim>\<open>{"status": "error", "message": m}\<close>;
  \<open>DescribeSuccess schema table columns row_count\<close> and
  \<open>ReadSuccess columns row_count rows message\<close> are the two dictionaries with status
  \<^verbatim>\<open>"success"\<close>.
\<close>

fun message_of :: "tool_result \<Rightarrow> string" where
  "message_of (ErrorResult m) = m"
| "message_of (DescribeSuccess s t cs n) = []"
| "message_of (ReadSuccess cs n rs m) = m"

section \<open>describe_table\<close>

definition make_col_info :: "column_row \<Rightarrow> col_info" where
  "make_col_info row =
     \<lparr> ci_name = COLUMN_NAME row,
       ci_type = DATA_TYPE row,
       ci_max_length = CHARACTER_MAXIMUM_LENGTH row,
       ci_nullable = (IS_NULLABLE row = CStr ''YES''),
       ci_default = COLUMN_DEFAULT row,
       ci_is_primary_key = (IS_PRIMARY_KEY row = CStr ''YES'') \<rparr>"

text \<open>
  Lines 90 to 94: the row count is the first cell of the first row of the count query;
  whatever goes wrong there is swallowed by the bare \<^verbatim>\<open>except\<close>.
\<close>

definition count_statement :: "pyval \<Rightarrow> pyval \<Rightarrow> string" where
  "count_statement schema table_name =
     ''SELECT COUNT(*) as row_count FROM ['' @ py_str schema @ ''].['' @
     py_str table_name @ '']''"

definition count_rows :: "database \<Rightarrow> pyval \<Rightarrow> pyval \<Rightarrow> cell" where
  "count_rows db schema table_name =
     (case execute_query db (count_statement schema table_name) of
        Inl e \<Rightarrow> CStr ''Unknown (no permission or table doesn't exist)''
      | Inr rs \<Rightarrow>
          (case fetched rs of
             (v # vs) # rows \<Rightarrow> v
           | _ \<Rightarrow> CStr ''Unknown (no permission or table doesn't exist)''))"

text \<open>The handler of line 104: a \<^verbatim>\<open>pyodbc.Error\<close> becomes an error result, anything else propagates.\<close>

fun describe_except :: "py_exception \<Rightarrow> py_exception + tool_result" where
  "describe_except (PyodbcError m) = Inr (ErrorResult (''Database error: '' @ m))"
| "describe_except e = Inl e"

definition describe_table ::
  "database \<Rightarrow> pyval \<Rightarrow> pyval \<Rightarrow> (py_exception + tool_result) \<times> db_event list" where
  "describe_table db table_name schema =
     (case create_connection db of
        Inl e \<Rightarrow> (describe_except e, [Connect])
      | Inr u \<Rightarrow>
          (case information_schema_columns db schema table_name of
             Inl e \<Rightarrow> (describe_except e, [Connect, ExecuteColumns schema table_name, Close])
           | Inr fetched_rows \<Rightarrow>
               (let columns = map make_col_info fetched_rows in
                if columns = [] then
                  (Inr (ErrorResult (''Table '' @ py_str schema @ ''.'' @ py_str table_name @
                          '' not found or you don't have permission to access it.'')),
                   [Connect, ExecuteColumns schema table_name, Close])
                else
                  (Inr (DescribeSuccess schema table_name columns
                          (count_rows db schema table_name)),
                   [Connect, ExecuteColumns schema table_name,
                    Execute (count_statement schema table_name), Close]))))"

section \<open>read_data\<close>

definition dangerous_keywords :: "string list" where
  "dangerous_keywords =
     [''DROP'', ''DELETE'', ''INSERT'', ''UPDATE'', ''ALTER'', ''CREATE'', ''TRUNCATE'']"

text \<open>Line 132: the set of pieces of the upper-cased, trimmed statement.\<close>

definition tokens :: "string \<Rightarrow> string set" where
  "tokens query_upper = set (re_split token_delimiter query_upper)"

text \<open>Lines 133 to 138: the first keyword of the list, in list order, that is a token.\<close>

definition first_dangerous :: "string \<Rightarrow> string option" where
  "first_dangerous query_upper = find (\<lambda>keyword. keyword \<in> tokens query_upper) dangerous_keywords"

text \<open>
  Line 141, \<^verbatim>\<open>min(max(1, limit), 1000)\<close>: comparing 1 with a value that is not a number
  raises a TypeError.
\<close>

fun enforce_limit :: "pyval \<Rightarrow> py_exception + int" where
  "enforce_limit (PInt limit) = Inr (min (max 1 limit) 1000)"
| "enforce_limit v =
     Inl (TypeError (quoted ''>'' @ '' not supported between instances of '' @
                     quoted (type_name v) @ '' and '' @ quoted ''int''))"

text \<open>Lines 144 to 148: the statement handed to the cursor.\<close>

definition add_top :: "string \<Rightarrow> string \<Rightarrow> int \<Rightarrow> string" where
  "add_top query query_upper limit =
     (if \<not> py_in ''TOP'' query_upper \<and> \<not> py_in ''LIMIT'' query_upper then
        (let stripped = py_strip query;
             select_pos = py_find query_upper ''SELECT''
         in if select_pos \<noteq> - 1 then
              take (nat (select_pos + 6)) stripped @ '' TOP '' @ str_int limit @
              drop (nat (select_pos + 6)) stripped
            else stripped)
      else query)"

text \<open>Lines 156 to 168: one dictionary per row; a date-time cell becomes its ISO string.\<close>

fun convert_cell :: "cell \<Rightarrow> cell" where
  "convert_cell (CDateTime iso_text) = CStr iso_text"
| "convert_cell v = v"

fun dict_set :: "(string \<times> cell) list \<Rightarrow> string \<Rightarrow> cell \<Rightarrow> (string \<times> cell) list" where
  "dict_set [] k v = [(k, v)]"
| "dict_set ((k', v') # kvs) k v = (if k' = k then (k', v) # kvs else (k', v') # dict_set kvs k v)"

fun fill_row :: "(string \<times> cell) list \<Rightarrow> string list \<Rightarrow> cell list \<Rightarrow> py_exception + (string \<times> cell) list" where
  "fill_row row_dict [] row = Inr row_dict"
| "fill_row row_dict (col_name # columns) [] = Inl (IndexError ''tuple index out of range'')"
| "fill_row row_dict (col_name # columns) (v # row) =
     fill_row (dict_set row_dict col_name (convert_cell v)) columns row"

fun fill_rows :: "string list \<Rightarrow> cell list list \<Rightarrow> py_exception + (string \<times> cell) list list" where
  "fill_rows columns [] = Inr []"
| "fill_rows columns (row # remaining) =
     (case fill_row [] columns row of
        Inl e \<Rightarrow> Inl e
      | Inr row_dict \<Rightarrow>
          (case fill_rows columns remaining of
             Inl e \<Rightarrow> Inl e
           | Inr rows \<Rightarrow> Inr (row_dict # rows)))"

text \<open>The handler of line 178.\<close>

fun read_except :: "py_exception \<Rightarrow> py_exception + tool_result" where
  "read_except (PyodbcError m) =
     Inr (ErrorResult (''Query execution failed: '' @ m @
                       ''. You may not have permission to access this data.''))"
| "read_except e = Inl e"

text \<open>Lines 150 to 176: connect, execute, collect the rows.\<close>

definition execute_read :: "database \<Rightarrow> string \<Rightarrow> (py_exception + tool_result) \<times> db_event list" where
  "execute_read db query =
     (case create_connection db of
        Inl e \<Rightarrow> (read_except e, [Connect])
      | Inr u \<Rightarrow>
          (case execute_query db query of
             Inl e \<Rightarrow> (read_except e, [Connect, Execute query, Close])
           | Inr rs \<Rightarrow>
               (case description rs of
                  None \<Rightarrow>
                    (Inl (TypeError (quoted ''NoneType'' @ '' object is not iterable'')),
                     [Connect, Execute query, Close])
                | Some columns \<Rightarrow>
                    (case fill_rows columns (fetched rs) of
                       Inl e \<Rightarrow> (read_except e, [Connect, Execute query, Close])
                     | Inr rows \<Rightarrow>
                         (Inr (ReadSuccess columns (length rows) rows
                                 (''Retrieved '' @ str_nat (length rows) @ '' rows'')),
                          [Connect, Execute query, Close])))))"

definition read_data ::
  "database \<Rightarrow> pyval \<Rightarrow> pyval \<Rightarrow> (py_exception + tool_result) \<times> db_event list" where
  "read_data db query limit =
     (case query of
        PStr q \<Rightarrow>
          (let query_upper = py_upper (py_strip q) in
           if \<not> prefix ''SELECT'' query_upper then
             (Inr (ErrorResult ''Only SELECT queries are allowed for security reasons.''), [])
           else
             (case first_dangerous query_upper of
                Some keyword \<Rightarrow>
                  (Inr (ErrorResult (''Query contains prohibited keyword: '' @ keyword)), [])
              | None \<Rightarrow>
                  (case enforce_limit limit of
                     Inl e \<Rightarrow> (Inl e, [])
                   | Inr limit' \<Rightarrow> execute_read db (add_top q query_upper limit'))))
      | v \<Rightarrow>
          (Inl (AttributeError (quoted (type_name v) @ '' object has no attribute '' @
                                quoted ''strip'')), []))"

section \<open>call_tool\<close>

text \<open>
  The body of the \<^verbatim>\<open>try\<close> block of \<^verbatim>\<open>call_tool\<close> (lines 240 to 269), up to the
  serialisation of the result dictionary, which is not modelled: the model returns the
  dictionary that \<^verbatim>\<open>json.dumps\<close> is applied to.
\<close>

definition call_tool_body ::
  "database \<Rightarrow> string \<Rightarrow> (string \<rightharpoonup> pyval) \<Rightarrow> (py_exception + tool_result) \<times> db_event list" where
  "call_tool_body db name arguments =
     (if name = ''describe_table'' then
        (let table_name = dict_get arguments ''table_name'' PNone;
             schema = dict_get arguments ''schema'' (PStr ''dbo'')
         in if \<not> py_truthy table_name then (Inr (ErrorResult ''table_name is required''), [])
            else describe_table db table_name schema)
      else if name = ''read_data'' then
        (let query = dict_get arguments ''query'' PNone;
             limit = dict_get arguments ''limit'' (PInt 100)
         in if \<not> py_truthy query then (Inr (ErrorResult ''query is required''), [])
            else read_data db query limit)
      else (Inr (ErrorResult (''Unknown tool: '' @ name)), []))"

text \<open>Lines 271 to 276: whatever the body raises becomes an error result.\<close>

definition call_tool ::
  "database \<Rightarrow> string \<Rightarrow> (string \<rightharpoonup> pyval) \<Rightarrow> tool_result \<times> db_event list" where
  "call_tool db name arguments =
     (case call_tool_body db name arguments of
        (Inl e, trace) \<Rightarrow> (ErrorResult (''Tool execution failed: '' @ str_exception e), trace)
      | (Inr result, trace) \<Rightarrow> (result, trace))"

text \<open>
  The limit that reaches the statement when \<^verbatim>\<open>read_data\<close> is invoked through
  \<^verbatim>\<open>call_tool\<close>: line 254 followed by line 141.
\<close>

definition effective_limit :: "(string \<rightharpoonup> pyval) \<Rightarrow> py_exception + int" where
  "effective_limit arguments = enforce_limit (dict_get arguments ''limit'' (PInt 100))"

section \<open>The client session\<close>

text \<open>
  \<^verbatim>\<open>MCPClient\<close> of \<^verbatim>\<open>backend/mcp_server/client.py\<close>, as far as requests are sent:
  the counter \<^verbatim>\<open>request_id\<close> and the writing end of the pipe, which is \<open>None\<close>
  until \<^verbatim>\<open>start()\<close> has spawned the server. The pipe is modelled by the requests
  written to it, oldest first; the JSON text of a request is not modelled. Whether
  \<^verbatim>\<open>drain()\<close> returns or raises is decided by the operating system and is an input of
  the model.
\<close>

record 'p request =
  jsonrpc :: string
  req_id :: int
  req_method :: string
  req_params :: 'p

record 'p mcp_client =
  request_id :: int
  writer :: "'p request list option"

definition client_init :: "'p mcp_client" where
  "client_init = \<lparr> request_id = 0, writer = None \<rparr>"

definition open_pipes :: "'p mcp_client \<Rightarrow> 'p mcp_client" where
  "open_pipes c = c\<lparr> writer := Some [] \<rparr>"

definition send_request ::
  "'p mcp_client \<Rightarrow> string \<Rightarrow> 'p \<Rightarrow> bool \<Rightarrow> (py_exception + int) \<times> 'p mcp_client" where
  "send_request c method params drain_ok =
     (let c1 = c\<lparr> request_id := request_id c + 1 \<rparr>;
          request = \<lparr> jsonrpc = ''2.0'', req_id = request_id c1,
                      req_method = method, req_params = params \<rparr>
      in case writer c1 of
           None \<Rightarrow>
             (Inl (AttributeError (quoted ''NoneType'' @ '' object has no attribute '' @
                                   quoted ''write'')), c1)
         | Some frames \<Rightarrow>
             (let c2 = c1\<lparr> writer := Some (frames @ [request]) \<rparr>
              in if drain_ok then (Inr (request_id c2), c2)
                 else (Inl (ConnectionResetError ''Connection lost''), c2)))"

text \<open>
  A session is a sequence of calls of \<^verbatim>\<open>_send_request\<close>: the handshake of
  \<^verbatim>\<open>start()\<close>, then one call for each \<^verbatim>\<open>list_tools\<close> and \<^verbatim>\<open>call_tool\<close>.
  \<open>send_all\<close> runs such a sequence and returns the identifiers assigned, in order,
  and the client after the last call.
\<close>

fun send_all ::
  "'p mcp_client \<Rightarrow> (string \<times> 'p \<times> bool) list \<Rightarrow> int list \<times> 'p mcp_client" where
  "send_all c [] = ([], c)"
| "send_all c ((method, params, drain_ok) # calls) =
     (let (outcome, c') = send_request c method params drain_ok;
          (ids, c'') = send_all c' calls
      in (request_id c' # ids, c''))"

definition written :: "'p mcp_client \<Rightarrow> 'p request list" where
  "written c = (case writer c of None \<Rightarrow> [] | Some frames \<Rightarrow> frames)"

section \<open>Reference definitions and sample data\<close>

text \<open>The clamp of the specification: below \<open>lo\<close> gives \<open>lo\<close>, above \<open>hi\<close> gives \<open>hi\<close>.\<close>

definition clamp :: "int \<Rightarrow> int \<Rightarrow> int \<Rightarrow> int" where
  "clamp x lo hi = (if x < lo then lo else if hi < x then hi else x)"

text \<open>
  The rewrite as the specification words it: the limiting clause goes right after the
  read keyword of the statement, and nothing else changes.
\<close>

definition insert_after_select :: "string \<Rightarrow> int \<Rightarrow> string" where
  "insert_after_select statement limit =
     (let after_keyword = nat (py_find (py_upper statement) ''SELECT'' + 6)
      in take after_keyword statement @ '' TOP '' @ str_int limit @ drop after_keyword statement)"

text \<open>
  The first keyword of a statement as a lexer reads it: the longest run of letters,
  digits and underscores at the start of the trimmed statement, upper-cased.
\<close>

definition word_char :: "char \<Rightarrow> bool" where
  "word_char c =
     (let n = (of_char c :: nat)
      in (65 \<le> n \<and> n \<le> 90) \<or> (97 \<le> n \<and> n \<le> 122) \<or> (48 \<le> n \<and> n \<le> 57) \<or> n = 95)"

definition first_keyword :: "string \<Rightarrow> string" where
  "first_keyword statement = py_upper (takeWhile word_char (py_strip statement))"

text \<open>
  A whole-token occurrence, stated without the tokenizer: the word stands in the text at
  position \<open>i\<close>, and on each side there is either the end of the text or a delimiter
  character. A word occurs only inside longer words when it is a substring of the text
  but never a whole token.
\<close>

definition whole_token_at :: "string \<Rightarrow> string \<Rightarrow> nat \<Rightarrow> bool" where
  "whole_token_at word s i =
     (i + length word \<le> length s \<and> take (length word) (drop i s) = word \<and>
      (i = 0 \<or> token_delimiter (s ! (i - 1))) \<and>
      (i + length word = length s \<or> token_delimiter (s ! (i + length word))))"

definition occurs_as_whole_token :: "string \<Rightarrow> string \<Rightarrow> bool" where
  "occurs_as_whole_token word s = (\<exists>i\<in>set [0..<Suc (length s)]. whole_token_at word s i)"

definition occurs_only_inside_longer_words :: "string \<Rightarrow> string \<Rightarrow> bool" where
  "occurs_only_inside_longer_words word s = (py_in word s \<and> \<not> occurs_as_whole_token word s)"

text \<open>A store with one table, and a store whose driver fails every statement.\<close>

definition accounts_db :: database where
  "accounts_db =
     \<lparr> create_connection = Inr (),
       information_schema_columns = (\<lambda>schema table_name.
          if schema = PStr ''dbo'' \<and> table_name = PStr ''Accounts'' then
            Inr [\<lparr> COLUMN_NAME = CStr ''id'', DATA_TYPE = CStr ''int'',
                   CHARACTER_MAXIMUM_LENGTH = CNull, IS_NULLABLE = CStr ''NO'',
                   COLUMN_DEFAULT = CNull, IS_PRIMARY_KEY = CStr ''YES'' \<rparr>]
          else Inr []),
       execute_query = (\<lambda>statement.
          Inr \<lparr> description = Some [''id''], fetched = [[CInt 1], [CInt 2]] \<rparr>) \<rparr>"

definition failing_db :: database where
  "failing_db =
     \<lparr> create_connection = Inr (),
       information_schema_columns = (\<lambda>schema table_name.
          Inl (PyodbcError ''Login failed for user reader'')),
       execute_query = (\<lambda>statement.
          Inl (PyodbcError ''Invalid object name Accounts'')) \<rparr>"

text \<open>A store whose table can be described but not counted.\<close>

definition count_denied_db :: database where
  "count_denied_db =
     \<lparr> create_connection = Inr (),
       information_schema_columns = (\<lambda>schema table_name.
          Inr [\<lparr> COLUMN_NAME = CStr ''id'', DATA_TYPE = CStr ''int'',
                 CHARACTER_MAXIMUM_LENGTH = CNull, IS_NULLABLE = CStr ''NO'',
                 COLUMN_DEFAULT = CNull, IS_PRIMARY_KEY = CStr ''YES'' \<rparr>]),
       execute_query = (\<lambda>statement.
          Inl (PyodbcError ''The SELECT permission was denied'')) \<rparr>"

section \<open>Basic facts about the gate\<close>

lemma find_prefix_zero: "prefix sub s \<Longrightarrow> sub \<noteq> [] \<Longrightarrow> py_find s sub = 0"
  by (cases s) (auto simp: py_find_def)

lemma read_data_not_select:
  "\<not> prefix ''SELECT'' (py_upper (py_strip q)) \<Longrightarrow>
   read_data db (PStr q) limit =
     (Inr (ErrorResult ''Only SELECT queries are allowed for security reasons.''), [])"
  by (simp add: read_data_def)

lemma read_data_dangerous:
  "prefix ''SELECT'' (py_upper (py_strip q)) \<Longrightarrow>
   first_dangerous (py_upper (py_strip q)) = Some keyword \<Longrightarrow>
   read_data db (PStr q) limit =
     (Inr (ErrorResult (''Query contains prohibited keyword: '' @ keyword)), [])"
  by (simp add: read_data_def)

lemma read_data_accepted:
  "prefix ''SELECT'' (py_upper (py_strip q)) \<Longrightarrow>
   first_dangerous (py_upper (py_strip q)) = None \<Longrightarrow>
   read_data db (PStr q) (PInt L) =
     execute_read db (add_top q (py_upper (py_strip q)) (min (max 1 L) 1000))"
  by (simp add: read_data_def)

lemma add_top_insert:
  "prefix ''SELECT'' query_upper \<Longrightarrow> \<not> py_in ''TOP'' query_upper \<Longrightarrow>
   \<not> py_in ''LIMIT'' query_upper \<Longrightarrow>
   add_top q query_upper lim =
     take 6 (py_strip q) @ '' TOP '' @ str_int lim @ drop 6 (py_strip q)"
  by (simp add: add_top_def find_prefix_zero Let_def)

lemma execute_read_trace:
  "create_connection db = Inr () \<Longrightarrow>
   snd (execute_read db stmt) = [Connect, Execute stmt, Close]"
  by (simp add: execute_read_def split: sum.splits option.splits)

lemma upper_delete_from_accounts:
  "py_upper (py_strip ''DELETE FROM Accounts'') = ''DELETE FROM ACCOUNTS''"
  by code_simp

lemma str_int_100: "str_int 100 = ''100''"
  by code_simp

lemma str_int_1: "str_int 1 = ''1''"
  by code_simp

section \<open>The DELETE scenario\<close>

text \<open>
  Claim C4, as the specification states it: \<^verbatim>\<open>read_data("DELETE FROM Accounts")\<close> is
  rejected with the prohibited-keyword message. It is not: the statement fails the
  SELECT prefix test of line 123, which comes first, so the message is the one of
  line 126 and the keyword loop is never reached.
\<close>

theorem delete_scenario_message_counterexample:
  "fst (read_data accounts_db (PStr ''DELETE FROM Accounts'') (PInt 100)) =
     Inr (ErrorResult ''Only SELECT queries are allowed for security reasons.'') \<and>
   fst (read_data accounts_db (PStr ''DELETE FROM Accounts'') (PInt 100)) \<noteq>
     Inr (ErrorResult ''Query contains prohibited keyword: DELETE'')"
  by (simp add: read_data_not_select upper_delete_from_accounts)

text \<open>
  Claim C4, amended: for every data store and every limit,
  \<^verbatim>\<open>read_data("DELETE FROM Accounts")\<close> returns the error result whose message is
  "Only SELECT queries are allowed for security reasons.", and no call reaches the data
  store: the list of driver events is empty, so no connection is acquired.
\<close>

theorem delete_scenario_rejected_without_data_access:
  "read_data db (PStr ''DELETE FROM Accounts'') limit =
     (Inr (ErrorResult ''Only SELECT queries are allowed for security reasons.''), [])"
  by (rule read_data_not_select) (simp add: upper_delete_from_accounts)

section \<open>Unknown tools and empty arguments\<close>

text \<open>
  Claim C8: a call whose tool name is neither \<^verbatim>\<open>describe_table\<close> nor
  \<^verbatim>\<open>read_data\<close> gives the error result "Unknown tool: " followed by the name. The
  body of the \<^verbatim>\<open>try\<close> block returns it normally (nothing is raised, so the handler of
  line 271 is not involved), \<^verbatim>\<open>call_tool\<close> returns it as an ordinary result, and the
  data store is not touched.
\<close>

theorem unknown_tool_error_result:
  "name \<noteq> ''describe_table'' \<Longrightarrow> name \<noteq> ''read_data'' \<Longrightarrow>
   call_tool_body db name arguments = (Inr (ErrorResult (''Unknown tool: '' @ name)), []) \<and>
   call_tool db name arguments = (ErrorResult (''Unknown tool: '' @ name), [])"
  by (simp add: call_tool_def call_tool_body_def)

theorem unknown_tool_error_result_witness:
  "''list_tables'' \<noteq> ''describe_table'' \<and> ''list_tables'' \<noteq> ''read_data'' \<and>
   call_tool_body accounts_db ''list_tables'' Map.empty =
     (Inr (ErrorResult ''Unknown tool: list_tables''), []) \<and>
   call_tool accounts_db ''list_tables'' Map.empty =
     (ErrorResult ''Unknown tool: list_tables'', [])"
  using unknown_tool_error_result [of "''list_tables''" accounts_db Map.empty] by simp

text \<open>
  Claim C10: an empty string for \<^verbatim>\<open>table_name\<close> (tool \<^verbatim>\<open>describe_table\<close>) or for
  \<^verbatim>\<open>query\<close> (tool \<^verbatim>\<open>read_data\<close>) gives the same "... is required" error result
  as an absent argument, whatever the other arguments are, and the tool itself is not
  invoked: no driver event is recorded.
\<close>

theorem empty_argument_same_as_missing:
  "call_tool db ''describe_table'' (arguments(''table_name'' \<mapsto> PStr [])) =
     (ErrorResult ''table_name is required'', []) \<and>
   call_tool db ''describe_table'' (arguments(''table_name'' := None)) =
     (ErrorResult ''table_name is required'', []) \<and>
   call_tool db ''read_data'' (arguments(''query'' \<mapsto> PStr [])) =
     (ErrorResult ''query is required'', []) \<and>
   call_tool db ''read_data'' (arguments(''query'' := None)) =
     (ErrorResult ''query is required'', [])"
  by (simp add: call_tool_def call_tool_body_def dict_get_def)

section \<open>The row limit\<close>

lemma enforce_limit_clamp: "min (max 1 L) 1000 = clamp L 1 1000"
  by (simp add: clamp_def)

lemma effective_limit_missing: "effective_limit (arguments(''limit'' := None)) = Inr 100"
  by (simp add: effective_limit_def dict_get_def)

lemma effective_limit_int:
  "effective_limit (arguments(''limit'' \<mapsto> PInt L)) = Inr (min (max 1 L) 1000)"
  by (simp add: effective_limit_def dict_get_def)

lemma prefix_select_nonempty: "prefix ''SELECT'' (py_upper (py_strip q)) \<Longrightarrow> q \<noteq> []"
  by (auto simp: py_strip_def py_upper_def)

lemma call_tool_read_data:
  "arguments ''query'' = Some (PStr q) \<Longrightarrow> q \<noteq> [] \<Longrightarrow>
   call_tool_body db ''read_data'' arguments =
     read_data db (PStr q) (dict_get arguments ''limit'' (PInt 100))"
  by (simp add: call_tool_body_def dict_get_def)

lemma snd_call_tool: "snd (call_tool db name arguments) = snd (call_tool_body db name arguments)"
  by (simp add: call_tool_def split: prod.splits sum.splits)

lemma call_tool_statement:
  assumes "arguments ''query'' = Some (PStr q)"
    and "prefix ''SELECT'' (py_upper (py_strip q))"
    and "first_dangerous (py_upper (py_strip q)) = None"
    and "\<not> py_in ''TOP'' (py_upper (py_strip q))"
    and "\<not> py_in ''LIMIT'' (py_upper (py_strip q))"
    and "create_connection db = Inr ()"
    and "dict_get arguments ''limit'' (PInt 100) = PInt L"
  shows "snd (call_tool db ''read_data'' arguments) =
     [Connect,
      Execute (take 6 (py_strip q) @ '' TOP '' @ str_int (min (max 1 L) 1000) @
               drop 6 (py_strip q)),
      Close]"
proof -
  have "q \<noteq> []" using assms(2) by (rule prefix_select_nonempty)
  then have "call_tool_body db ''read_data'' arguments = read_data db (PStr q) (PInt L)"
    using assms(1,7) by (simp add: call_tool_read_data)
  also have "\<dots> = execute_read db (add_top q (py_upper (py_strip q)) (min (max 1 L) 1000))"
    using assms(2,3) by (rule read_data_accepted)
  finally show ?thesis
    using assms(2,4,5,6) by (simp add: snd_call_tool execute_read_trace add_top_insert)
qed

lemma upper_take: "prefix ''SELECT'' (py_upper s) \<Longrightarrow> py_upper (take 6 s) = ''SELECT''"
  by (auto simp: py_upper_def prefix_def take_map [symmetric])

lemma insert_after_select_stripped:
  "prefix ''SELECT'' (py_upper s) \<Longrightarrow>
   insert_after_select s lim = take 6 s @ '' TOP '' @ str_int lim @ drop 6 s"
  by (simp add: insert_after_select_def find_prefix_zero Let_def)

text \<open>The statement \<^verbatim>\<open>SELECT * FROM Accounts\<close>, evaluated.\<close>

lemma all_accounts_strip: "py_strip ''SELECT * FROM Accounts'' = ''SELECT * FROM Accounts''"
  by code_simp

lemma all_accounts_prefix: "prefix ''SELECT'' (py_upper (py_strip ''SELECT * FROM Accounts''))"
  by code_simp

lemma all_accounts_clean:
  "first_dangerous (py_upper (py_strip ''SELECT * FROM Accounts'')) = None"
  by code_simp

lemma all_accounts_no_top: "\<not> py_in ''TOP'' (py_upper (py_strip ''SELECT * FROM Accounts''))"
  by code_simp

lemma all_accounts_no_limit: "\<not> py_in ''LIMIT'' (py_upper (py_strip ''SELECT * FROM Accounts''))"
  by code_simp

lemma accounts_db_connects: "create_connection accounts_db = Inr ()"
  by (simp add: accounts_db_def)

lemma call_tool_body_accepted:
  assumes "arguments ''query'' = Some (PStr q)"
    and "prefix ''SELECT'' (py_upper (py_strip q))"
    and "first_dangerous (py_upper (py_strip q)) = None"
    and "dict_get arguments ''limit'' (PInt 100) = PInt L"
  shows "call_tool_body db ''read_data'' arguments =
     execute_read db (add_top q (py_upper (py_strip q)) (clamp L 1 1000))"
proof -
  have "q \<noteq> []" using assms(2) by (rule prefix_select_nonempty)
  then have "call_tool_body db ''read_data'' arguments = read_data db (PStr q) (PInt L)"
    using assms(1,4) by (simp add: call_tool_read_data)
  also have "\<dots> = execute_read db (add_top q (py_upper (py_strip q)) (min (max 1 L) 1000))"
    using assms(2,3) by (rule read_data_accepted)
  finally show ?thesis by (simp add: enforce_limit_clamp)
qed

lemma call_tool_body_bad_limit:
  assumes "arguments ''query'' = Some (PStr q)"
    and "prefix ''SELECT'' (py_upper (py_strip q))"
    and "first_dangerous (py_upper (py_strip q)) = None"
    and "dict_get arguments ''limit'' (PInt 100) = v"
    and "enforce_limit v = Inl e"
  shows "call_tool_body db ''read_data'' arguments = (Inl e, [])"
proof -
  have "q \<noteq> []" using assms(2) by (rule prefix_select_nonempty)
  then have "call_tool_body db ''read_data'' arguments = read_data db (PStr q) v"
    using assms(1,4) by (simp add: call_tool_read_data)
  then show ?thesis using assms(2,3,5) by (simp add: read_data_def)
qed

lemma all_accounts_modelled: "modelled_text ''SELECT * FROM Accounts''"
  by code_simp

lemma all_accounts_top_100:
  "add_top ''SELECT * FROM Accounts'' (py_upper (py_strip ''SELECT * FROM Accounts''))
     (clamp 100 1 1000) = ''SELECT TOP 100 * FROM Accounts''"
  by code_simp

lemma all_accounts_top_5000:
  "add_top ''SELECT * FROM Accounts'' (py_upper (py_strip ''SELECT * FROM Accounts''))
     (clamp 5000 1 1000) = ''SELECT TOP 1000 * FROM Accounts''"
  by code_simp

text \<open>
  Claim C7: the limit used by \<^verbatim>\<open>read_data\<close> is the requested limit clamped into
  1 to 1000, where a missing limit counts as 100. \<open>clamp\<close> is the clamp of the
  specification and \<open>enforce_limit\<close> is line 141. For a statement that passes the
  gate, \<^verbatim>\<open>call_tool\<close> with the integer limit L runs the statement built with
  \<open>clamp L 1 1000\<close>, and \<^verbatim>\<open>call_tool\<close> without the key \<^verbatim>\<open>limit\<close> runs the
  statement built with \<open>clamp 100 1 1000\<close>, which is 100: the default of line 254. In
  particular 0 gives 1, 5000 gives 1000 and -3 gives 1. A limit that is present but is
  not an integer (null, a string) is outside the claim: line 141 then raises a
  TypeError before any data access, and no limit is used.
\<close>

theorem limit_used_is_clamp:
  assumes "arguments ''query'' = Some (PStr q)"
    and "modelled_text q"
    and "prefix ''SELECT'' (py_upper (py_strip q))"
    and "first_dangerous (py_upper (py_strip q)) = None"
  shows "enforce_limit (PInt L) = Inr (clamp L 1 1000) \<and>
     read_data db (PStr q) (PInt L) =
       execute_read db (add_top q (py_upper (py_strip q)) (clamp L 1 1000)) \<and>
     call_tool_body db ''read_data'' (arguments(''limit'' \<mapsto> PInt L)) =
       execute_read db (add_top q (py_upper (py_strip q)) (clamp L 1 1000)) \<and>
     call_tool_body db ''read_data'' (arguments(''limit'' := None)) =
       execute_read db (add_top q (py_upper (py_strip q)) (clamp 100 1 1000)) \<and>
     clamp 100 1 1000 = 100 \<and>
     clamp 0 1 1000 = 1 \<and> clamp 5000 1 1000 = 1000 \<and> clamp (- 3) 1 1000 = 1 \<and>
     call_tool_body db ''read_data'' (arguments(''limit'' \<mapsto> PNone)) =
       (Inl (TypeError (quoted ''>'' @ '' not supported between instances of '' @
                       quoted ''NoneType'' @ '' and '' @ quoted ''int'')), []) \<and>
     call_tool_body db ''read_data'' (arguments(''limit'' \<mapsto> PStr t)) =
       (Inl (TypeError (quoted ''>'' @ '' not supported between instances of '' @
                       quoted ''str'' @ '' and '' @ quoted ''int'')), [])"
proof -
  have 1: "enforce_limit (PInt L) = Inr (clamp L 1 1000)"
    by (simp add: enforce_limit_clamp)
  have 2: "read_data db (PStr q) (PInt L) =
       execute_read db (add_top q (py_upper (py_strip q)) (clamp L 1 1000))"
    using assms(3,4) by (simp add: read_data_accepted enforce_limit_clamp)
  have 3: "call_tool_body db ''read_data'' (arguments(''limit'' \<mapsto> PInt L)) =
       execute_read db (add_top q (py_upper (py_strip q)) (clamp L 1 1000))"
    using assms(1,3,4) by (intro call_tool_body_accepted) (simp_all add: dict_get_def)
  have 4: "call_tool_body db ''read_data'' (arguments(''limit'' := None)) =
       execute_read db (add_top q (py_upper (py_strip q)) (clamp 100 1 1000))"
    using assms(1,3,4) by (intro call_tool_body_accepted) (simp_all add: dict_get_def)
  have 5: "clamp 100 1 1000 = 100 \<and>
     clamp 0 1 1000 = 1 \<and> clamp 5000 1 1000 = 1000 \<and> clamp (- 3) 1 1000 = 1"
    by (simp add: clamp_def)
  have 6: "call_tool_body db ''read_data'' (arguments(''limit'' \<mapsto> PNone)) =
       (Inl (TypeError (quoted ''>'' @ '' not supported between instances of '' @
                       quoted ''NoneType'' @ '' and '' @ quoted ''int'')), [])"
    using assms(1,3,4)
    by (intro call_tool_body_bad_limit [where v = PNone]) (simp_all add: dict_get_def)
  have 7: "call_tool_body db ''read_data'' (arguments(''limit'' \<mapsto> PStr t)) =
       (Inl (TypeError (quoted ''>'' @ '' not supported between instances of '' @
                       quoted ''str'' @ '' and '' @ quoted ''int'')), [])"
    using assms(1,3,4)
    by (intro call_tool_body_bad_limit [where v = "PStr t"]) (simp_all add: dict_get_def)
  from 1 2 3 4 5 6 7 show ?thesis by blast
qed

theorem limit_used_is_clamp_witness:
  "[''query'' \<mapsto> PStr ''SELECT * FROM Accounts''] ''query'' =
     Some (PStr ''SELECT * FROM Accounts'') \<and>
   modelled_text ''SELECT * FROM Accounts'' \<and>
   prefix ''SELECT'' (py_upper (py_strip ''SELECT * FROM Accounts'')) \<and>
   first_dangerous (py_upper (py_strip ''SELECT * FROM Accounts'')) = None \<and>
   call_tool_body accounts_db ''read_data''
     [''query'' \<mapsto> PStr ''SELECT * FROM Accounts'', ''limit'' \<mapsto> PInt 5000] =
     execute_read accounts_db ''SELECT TOP 1000 * FROM Accounts'' \<and>
   call_tool_body accounts_db ''read_data''
     ([''query'' \<mapsto> PStr ''SELECT * FROM Accounts''](''limit'' := None)) =
     execute_read accounts_db ''SELECT TOP 100 * FROM Accounts''"
proof -
  have q: "[''query'' \<mapsto> PStr ''SELECT * FROM Accounts''] ''query'' =
     Some (PStr ''SELECT * FROM Accounts'')"
    by simp
  note t = limit_used_is_clamp
    [where arguments = "[''query'' \<mapsto> PStr ''SELECT * FROM Accounts'']"
       and q = "''SELECT * FROM Accounts''" and L = 5000 and db = accounts_db,
     OF q all_accounts_modelled all_accounts_prefix all_accounts_clean]
  from t have a: "call_tool_body accounts_db ''read_data''
     [''query'' \<mapsto> PStr ''SELECT * FROM Accounts'', ''limit'' \<mapsto> PInt 5000] =
     execute_read accounts_db
       (add_top ''SELECT * FROM Accounts'' (py_upper (py_strip ''SELECT * FROM Accounts''))
          (clamp 5000 1 1000))"
    by blast
  from t have b: "call_tool_body accounts_db ''read_data''
     ([''query'' \<mapsto> PStr ''SELECT * FROM Accounts''](''limit'' := None)) =
     execute_read accounts_db
       (add_top ''SELECT * FROM Accounts'' (py_upper (py_strip ''SELECT * FROM Accounts''))
          (clamp 100 1 1000))"
    by blast
  show ?thesis
    using a [unfolded all_accounts_top_5000] b [unfolded all_accounts_top_100]
      q all_accounts_modelled all_accounts_prefix all_accounts_clean
    by blast
qed

text \<open>
  Claim C6, as the specification states it: a requested limit of 0 or -3 is replaced by
  the default 100. It is not: the default of line 254 applies only when the key is
  absent, and line 141 lifts 0 and -3 to 1, so the statement executed carries
  \<^verbatim>\<open>TOP 1\<close>.
\<close>

theorem nonpositive_limit_counterexample:
  "effective_limit [''query'' \<mapsto> PStr ''SELECT * FROM Accounts'', ''limit'' \<mapsto> PInt 0] = Inr 1 \<and>
   effective_limit [''query'' \<mapsto> PStr ''SELECT * FROM Accounts'', ''limit'' \<mapsto> PInt (- 3)] = Inr 1 \<and>
   effective_limit [''query'' \<mapsto> PStr ''SELECT * FROM Accounts'', ''limit'' \<mapsto> PInt 0]
     \<noteq> Inr 100 \<and>
   snd (call_tool accounts_db ''read_data''
          [''query'' \<mapsto> PStr ''SELECT * FROM Accounts'', ''limit'' \<mapsto> PInt 0]) =
     [Connect, Execute ''SELECT TOP 1 * FROM Accounts'', Close]"
  by code_simp

text \<open>
  Claim C6, amended: a missing limit is replaced by the default 100, and the effective
  limit is then 100; a requested limit that is zero or negative is not replaced by the
  default but lifted to 1. For a statement that passes the gate and has no limiting
  keyword, the statement sent to a data store that connects carries \<^verbatim>\<open>TOP 100\<close> in the
  first case and \<^verbatim>\<open>TOP 1\<close> in the second.
\<close>

theorem missing_limit_is_100_nonpositive_is_1:
  assumes "arguments ''query'' = Some (PStr q)"
    and "prefix ''SELECT'' (py_upper (py_strip q))"
    and "first_dangerous (py_upper (py_strip q)) = None"
    and "\<not> py_in ''TOP'' (py_upper (py_strip q))"
    and "\<not> py_in ''LIMIT'' (py_upper (py_strip q))"
    and "create_connection db = Inr ()"
  shows "effective_limit (arguments(''limit'' := None)) = Inr 100 \<and>
     snd (call_tool db ''read_data'' (arguments(''limit'' := None))) =
       [Connect, Execute (take 6 (py_strip q) @ '' TOP 100'' @ drop 6 (py_strip q)), Close] \<and>
     (L \<le> 0 \<longrightarrow>
        effective_limit (arguments(''limit'' \<mapsto> PInt L)) = Inr 1 \<and>
        snd (call_tool db ''read_data'' (arguments(''limit'' \<mapsto> PInt L))) =
          [Connect, Execute (take 6 (py_strip q) @ '' TOP 1'' @ drop 6 (py_strip q)), Close])"
proof -
  have missing: "snd (call_tool db ''read_data'' (arguments(''limit'' := None))) =
       [Connect, Execute (take 6 (py_strip q) @ '' TOP 100'' @ drop 6 (py_strip q)), Close]"
    using call_tool_statement [of "arguments(''limit'' := None)" q db 100] assms
    by (simp add: dict_get_def str_int_100)
  have given: "snd (call_tool db ''read_data'' (arguments(''limit'' \<mapsto> PInt L))) =
       [Connect, Execute (take 6 (py_strip q) @ '' TOP 1'' @ drop 6 (py_strip q)), Close]"
    if "L \<le> 0"
  proof -
    have "min (max 1 L) 1000 = 1" using that by simp
    then show ?thesis
      using call_tool_statement [of "arguments(''limit'' \<mapsto> PInt L)" q db L] assms
      by (simp add: dict_get_def str_int_1)
  qed
  have "L \<le> 0 \<longrightarrow> effective_limit (arguments(''limit'' \<mapsto> PInt L)) = Inr 1"
    by (simp add: effective_limit_int)
  with missing given show ?thesis
    by (simp add: effective_limit_missing)
qed

theorem missing_limit_is_100_nonpositive_is_1_witness:
  "[''query'' \<mapsto> PStr ''SELECT * FROM Accounts''] ''query'' =
     Some (PStr ''SELECT * FROM Accounts'') \<and>
   prefix ''SELECT'' (py_upper (py_strip ''SELECT * FROM Accounts'')) \<and>
   first_dangerous (py_upper (py_strip ''SELECT * FROM Accounts'')) = None \<and>
   \<not> py_in ''TOP'' (py_upper (py_strip ''SELECT * FROM Accounts'')) \<and>
   \<not> py_in ''LIMIT'' (py_upper (py_strip ''SELECT * FROM Accounts'')) \<and>
   create_connection accounts_db = Inr () \<and>
   (- 3 :: int) \<le> 0 \<and>
   snd (call_tool accounts_db ''read_data''
          ([''query'' \<mapsto> PStr ''SELECT * FROM Accounts''](''limit'' := None))) =
     [Connect, Execute ''SELECT TOP 100 * FROM Accounts'', Close] \<and>
   snd (call_tool accounts_db ''read_data''
          [''query'' \<mapsto> PStr ''SELECT * FROM Accounts'', ''limit'' \<mapsto> PInt (- 3)]) =
     [Connect, Execute ''SELECT TOP 1 * FROM Accounts'', Close]"
proof -
  have q: "[''query'' \<mapsto> PStr ''SELECT * FROM Accounts''] ''query'' =
     Some (PStr ''SELECT * FROM Accounts'')"
    by simp
  show ?thesis
    using missing_limit_is_100_nonpositive_is_1
        [of "[''query'' \<mapsto> PStr ''SELECT * FROM Accounts'']" "''SELECT * FROM Accounts''"
            accounts_db "- 3"]
      q all_accounts_prefix all_accounts_clean all_accounts_no_top all_accounts_no_limit
      accounts_db_connects
    by (simp add: all_accounts_strip)
qed

section \<open>The rewrite of a statement without a limiting keyword\<close>

text \<open>The statement \<^verbatim>\<open>SELECT id FROM Accounts\<close> with two leading spaces, evaluated.\<close>

lemma padded_trace:
  "snd (read_data accounts_db (PStr ''  SELECT id FROM Accounts'') (PInt 100)) =
     [Connect, Execute ''SELECT TOP 100 id FROM Accounts'', Close]"
  by code_simp

lemma padded_reference:
  "insert_after_select ''  SELECT id FROM Accounts'' 100 = ''  SELECT TOP 100 id FROM Accounts''"
  by code_simp

lemma padded_prefix: "prefix ''SELECT'' (py_upper (py_strip ''  SELECT id FROM Accounts''))"
  by code_simp

lemma padded_clean: "first_dangerous (py_upper (py_strip ''  SELECT id FROM Accounts'')) = None"
  by code_simp

lemma padded_no_top: "\<not> py_in ''TOP'' (py_upper (py_strip ''  SELECT id FROM Accounts''))"
  by code_simp

lemma padded_no_limit: "\<not> py_in ''LIMIT'' (py_upper (py_strip ''  SELECT id FROM Accounts''))"
  by code_simp

lemma padded_rewrite:
  "insert_after_select (py_strip ''  SELECT id FROM Accounts'') (clamp 100 1 1000) =
     ''SELECT TOP 100 id FROM Accounts''"
  by code_simp

lemma padded_modelled: "modelled_text ''  SELECT id FROM Accounts''"
  by code_simp

text \<open>A trailing no-break space is trimmed like any other whitespace.\<close>

lemma no_break_space_is_trimmed:
  "snd (read_data accounts_db (PStr (''SELECT id FROM t'' @ [CHR 0xA0])) (PInt 100)) =
     [Connect, Execute ''SELECT TOP 100 id FROM t'', Close]"
  by code_simp

text \<open>
  Claim C2, as the specification states it: the rewritten statement is the input with
  one limiting clause inserted after the read keyword, and otherwise byte-identical to
  the input. It is not when the input has surrounding whitespace: line 145 trims the
  statement before the clause is inserted, so the two leading spaces of the input below
  are missing from the statement executed, which therefore differs from
  \<open>insert_after_select\<close> of the input.
\<close>

theorem rewrite_drops_surrounding_whitespace_counterexample:
  "snd (read_data accounts_db (PStr ''  SELECT id FROM Accounts'') (PInt 100)) =
     [Connect, Execute ''SELECT TOP 100 id FROM Accounts'', Close] \<and>
   insert_after_select ''  SELECT id FROM Accounts'' 100 =
     ''  SELECT TOP 100 id FROM Accounts'' \<and>
   ''SELECT TOP 100 id FROM Accounts'' \<noteq> insert_after_select ''  SELECT id FROM Accounts'' 100"
  by (simp add: padded_trace padded_reference)

text \<open>
  Claim C2, amended: for every statement that passes the gate and whose upper-cased,
  trimmed text contains neither \<^verbatim>\<open>TOP\<close> nor \<^verbatim>\<open>LIMIT\<close>, called with an integer limit,
  the statement handed to the data store is the whitespace-trimmed input with exactly
  the clause " TOP n" inserted after its first six characters, which are the read
  keyword; n is the clamped limit, and the rest is byte-identical to the trimmed input.
\<close>

theorem top_inserted_into_trimmed_statement:
  assumes "modelled_text q"
    and "prefix ''SELECT'' (py_upper (py_strip q))"
    and "first_dangerous (py_upper (py_strip q)) = None"
    and "\<not> py_in ''TOP'' (py_upper (py_strip q))"
    and "\<not> py_in ''LIMIT'' (py_upper (py_strip q))"
  shows "read_data db (PStr q) (PInt L) =
       execute_read db (insert_after_select (py_strip q) (clamp L 1 1000)) \<and>
     insert_after_select (py_strip q) (clamp L 1 1000) =
       take 6 (py_strip q) @ '' TOP '' @ str_int (clamp L 1 1000) @ drop 6 (py_strip q) \<and>
     py_upper (take 6 (py_strip q)) = ''SELECT'' \<and>
     (create_connection db = Inr () \<longrightarrow>
        snd (read_data db (PStr q) (PInt L)) =
          [Connect, Execute (insert_after_select (py_strip q) (clamp L 1 1000)), Close])"
proof -
  have rewrite: "add_top q (py_upper (py_strip q)) (clamp L 1 1000) =
      insert_after_select (py_strip q) (clamp L 1 1000)"
    using assms(2,4,5) by (simp add: add_top_insert insert_after_select_stripped)
  have run: "read_data db (PStr q) (PInt L) =
       execute_read db (insert_after_select (py_strip q) (clamp L 1 1000))"
    using assms(2,3) by (simp add: read_data_accepted enforce_limit_clamp rewrite)
  moreover have "insert_after_select (py_strip q) (clamp L 1 1000) =
       take 6 (py_strip q) @ '' TOP '' @ str_int (clamp L 1 1000) @ drop 6 (py_strip q)"
    using assms(2) by (rule insert_after_select_stripped)
  moreover have "py_upper (take 6 (py_strip q)) = ''SELECT''"
    using assms(2) by (rule upper_take)
  moreover have "create_connection db = Inr () \<longrightarrow>
        snd (read_data db (PStr q) (PInt L)) =
          [Connect, Execute (insert_after_select (py_strip q) (clamp L 1 1000)), Close]"
    by (simp add: run execute_read_trace)
  ultimately show ?thesis by blast
qed

theorem top_inserted_into_trimmed_statement_witness:
  "modelled_text ''  SELECT id FROM Accounts'' \<and>
   prefix ''SELECT'' (py_upper (py_strip ''  SELECT id FROM Accounts'')) \<and>
   first_dangerous (py_upper (py_strip ''  SELECT id FROM Accounts'')) = None \<and>
   \<not> py_in ''TOP'' (py_upper (py_strip ''  SELECT id FROM Accounts'')) \<and>
   \<not> py_in ''LIMIT'' (py_upper (py_strip ''  SELECT id FROM Accounts'')) \<and>
   create_connection accounts_db = Inr () \<and>
   read_data accounts_db (PStr ''  SELECT id FROM Accounts'') (PInt 100) =
     execute_read accounts_db ''SELECT TOP 100 id FROM Accounts'' \<and>
   snd (read_data accounts_db (PStr ''  SELECT id FROM Accounts'') (PInt 100)) =
     [Connect, Execute ''SELECT TOP 100 id FROM Accounts'', Close]"
proof -
  note t = top_inserted_into_trimmed_statement
    [OF padded_modelled padded_prefix padded_clean padded_no_top padded_no_limit,
     of accounts_db 100]
  from t have a: "read_data accounts_db (PStr ''  SELECT id FROM Accounts'') (PInt 100) =
       execute_read accounts_db
         (insert_after_select (py_strip ''  SELECT id FROM Accounts'') (clamp 100 1 1000))"
    by blast
  from t accounts_db_connects
  have b: "snd (read_data accounts_db (PStr ''  SELECT id FROM Accounts'') (PInt 100)) =
       [Connect,
        Execute (insert_after_select (py_strip ''  SELECT id FROM Accounts'') (clamp 100 1 1000)),
        Close]"
    by blast
  show ?thesis
    using a [unfolded padded_rewrite] b [unfolded padded_rewrite] padded_modelled
      padded_prefix padded_clean padded_no_top padded_no_limit accounts_db_connects
    by blast
qed

section \<open>The keyword denylist\<close>

lemma re_split_nonempty: "re_split d s \<noteq> []"
  by (induction s) (auto split: list.splits)

lemma re_split_leading:
  "\<forall>c\<in>set ws. d c \<Longrightarrow> set (re_split d (ws @ s)) - {[]} = set (re_split d s) - {[]}"
  by (induction ws) auto

lemma re_split_snoc: "d c \<Longrightarrow> re_split d (s @ [c]) = re_split d s @ [[]]"
  by (induction s) (auto split: list.splits simp: re_split_nonempty)

lemma re_split_trailing:
  "\<forall>c\<in>set ws. d c \<Longrightarrow> set (re_split d (s @ ws)) - {[]} = set (re_split d s) - {[]}"
proof (induction ws rule: rev_induct)
  case Nil
  then show ?case by simp
next
  case (snoc c ws)
  then have "re_split d ((s @ ws) @ [c]) = re_split d (s @ ws) @ [[]]"
    by (intro re_split_snoc) simp
  with snoc show ?case by auto
qed

lemma strip_decompose:
  "\<exists>a b. s = a @ py_strip s @ b \<and> (\<forall>c\<in>set a. py_isspace c) \<and> (\<forall>c\<in>set b. py_isspace c)"
proof -
  let ?m = "dropWhile py_isspace s"
  have 1: "s = takeWhile py_isspace s @ ?m" by simp
  have "rev (rev ?m) = rev (takeWhile py_isspace (rev ?m) @ dropWhile py_isspace (rev ?m))"
    by (simp only: takeWhile_dropWhile_id)
  then have "?m = rev (dropWhile py_isspace (rev ?m)) @ rev (takeWhile py_isspace (rev ?m))"
    by (simp only: rev_append rev_rev_ident)
  then have 2: "?m = py_strip s @ rev (takeWhile py_isspace (rev ?m))"
    by (simp only: py_strip_def)
  have 3: "\<forall>c\<in>set (takeWhile py_isspace s). py_isspace c"
    by (auto dest: set_takeWhileD)
  have 4: "\<forall>c\<in>set (rev (takeWhile py_isspace (rev ?m))). py_isspace c"
    by (auto dest: set_takeWhileD)
  from 1 2 have "s = takeWhile py_isspace s @ py_strip s @ rev (takeWhile py_isspace (rev ?m))"
    by simp
  with 3 4 show ?thesis by blast
qed

lemma upper_space: "py_isspace c \<Longrightarrow> upper_char c = c"
  unfolding py_isspace_def by (auto simp: upper_char_def)

lemma upper_spaces: "\<forall>c\<in>set a. py_isspace c \<Longrightarrow> py_upper a = a"
  by (induction a) (auto simp: py_upper_def upper_space)

lemma tokens_strip: "tokens (py_upper q) - {[]} = tokens (py_upper (py_strip q)) - {[]}"
proof -
  obtain a b where q: "q = a @ py_strip q @ b"
    and a: "\<forall>c\<in>set a. py_isspace c" and b: "\<forall>c\<in>set b. py_isspace c"
    using strip_decompose by blast
  have "py_upper q = py_upper (a @ py_strip q @ b)" using q by simp
  also have "\<dots> = a @ py_upper (py_strip q) @ b"
    using a b by (simp add: py_upper_def upper_spaces [unfolded py_upper_def])
  finally have u: "py_upper q = a @ py_upper (py_strip q) @ b" .
  have da: "\<forall>c\<in>set a. token_delimiter c" using a by (simp add: token_delimiter_def)
  have db: "\<forall>c\<in>set b. token_delimiter c" using b by (simp add: token_delimiter_def)
  show ?thesis
    unfolding tokens_def u
    using re_split_leading [OF da, of "py_upper (py_strip q) @ b"]
      re_split_trailing [OF db, of "py_upper (py_strip q)"]
    by simp
qed

lemma dangerous_nonempty: "keyword \<in> set dangerous_keywords \<Longrightarrow> keyword \<noteq> []"
  by (auto simp: dangerous_keywords_def)

lemma dangerous_token_strip:
  "keyword \<in> set dangerous_keywords \<Longrightarrow>
   keyword \<in> tokens (py_upper (py_strip q)) \<longleftrightarrow> keyword \<in> tokens (py_upper q)"
  using tokens_strip [of q] dangerous_nonempty [of keyword] by blast

lemma first_dangerous_Some:
  "first_dangerous query_upper = Some keyword \<Longrightarrow>
   keyword \<in> set dangerous_keywords \<and> keyword \<in> tokens query_upper"
  by (auto simp: first_dangerous_def find_Some_iff)

lemma first_dangerous_None:
  "first_dangerous query_upper = None \<longleftrightarrow>
   (\<forall>keyword\<in>set dangerous_keywords. keyword \<notin> tokens query_upper)"
  by (auto simp: first_dangerous_def find_None_iff)

lemma execute_read_not_keyword_error:
  "fst (execute_read db stmt) \<noteq>
     Inr (ErrorResult (''Query contains prohibited keyword: '' @ keyword))"
proof -
  have "read_except e \<noteq>
      Inr (ErrorResult (''Query contains prohibited keyword: '' @ keyword))" for e
    by (cases e) simp_all
  then show ?thesis
    by (simp add: execute_read_def split: sum.splits option.splits)
qed

lemma read_data_clean_not_keyword_error:
  assumes "prefix ''SELECT'' (py_upper (py_strip q))"
    and "first_dangerous (py_upper (py_strip q)) = None"
  shows "fst (read_data db (PStr q) limit) \<noteq>
     Inr (ErrorResult (''Query contains prohibited keyword: '' @ keyword))"
  using assms execute_read_not_keyword_error [of db _ keyword]
  by (simp add: read_data_def split: sum.splits)

lemma re_split_unfold:
  "re_split d s =
     takeWhile (\<lambda>c. \<not> d c) s #
     (case dropWhile (\<lambda>c. \<not> d c) s of [] \<Rightarrow> [] | x # rest \<Rightarrow> re_split d rest)"
  by (induction s) (auto split: list.splits)

lemma re_split_member_bounded:
  "t \<in> set (re_split d s) \<Longrightarrow>
   \<exists>pre post. s = pre @ t @ post \<and> (pre = [] \<or> d (last pre)) \<and> (post = [] \<or> d (hd post))"
proof (induction s rule: length_induct)
  case (1 s)
  let ?nd = "\<lambda>c. \<not> d c"
  from "1.prems" re_split_unfold [of d s]
  consider (head) "t = takeWhile ?nd s"
    | (tail) x rest where "dropWhile ?nd s = x # rest" "t \<in> set (re_split d rest)"
    by (auto split: list.splits)
  then show ?case
  proof cases
    case head
    have "s = [] @ t @ dropWhile ?nd s" by (simp add: head)
    moreover have "dropWhile ?nd s = [] \<or> d (hd (dropWhile ?nd s))"
      using hd_dropWhile [of ?nd s] by blast
    ultimately show ?thesis by blast
  next
    case tail
    have dx: "d x" using hd_dropWhile [of ?nd s] tail(1) by simp
    have "length (dropWhile ?nd s) \<le> length s" by (rule length_dropWhile_le)
    then have "length rest < length s" using tail(1) by simp
    with "1.IH" tail(2) obtain pre post where
      r: "rest = pre @ t @ post" "pre = [] \<or> d (last pre)" "post = [] \<or> d (hd post)"
      by blast
    have "s = takeWhile ?nd s @ dropWhile ?nd s" by simp
    then have "s = (takeWhile ?nd s @ x # pre) @ t @ post"
      using tail(1) r(1) by simp
    moreover have "d (last (takeWhile ?nd s @ x # pre))"
      using dx r(2) by auto
    ultimately show ?thesis using r(3) by blast
  qed
qed

lemma bounded_re_split_member:
  assumes "\<forall>c\<in>set t. \<not> d c"
    and "s = pre @ t @ post" and "pre = [] \<or> d (last pre)" and "post = [] \<or> d (hd post)"
  shows "t \<in> set (re_split d s)"
  using assms(2-)
proof (induction s arbitrary: pre rule: length_induct)
  case (1 s)
  let ?nd = "\<lambda>c. \<not> d c"
  show ?case
  proof (cases "pre = []")
    case True
    have "takeWhile ?nd post = []"
      using "1.prems"(3) by (cases post) auto
    then have "takeWhile ?nd s = t"
      using assms(1) "1.prems"(1) True by simp
    then show ?thesis
      using re_split_unfold [of d s] by (metis list.set_intros(1))
  next
    case False
    with "1.prems"(2) have dl: "d (last pre)" by simp
    have lp: "last pre \<in> set pre" using False by simp
    then have dw: "dropWhile ?nd s = dropWhile ?nd pre @ t @ post"
      using dl "1.prems"(1) by simp
    have ne: "dropWhile ?nd pre \<noteq> []"
      using lp dl by auto
    then obtain x b where xb: "dropWhile ?nd pre = x # b" by (cases "dropWhile ?nd pre") auto
    have "last pre = last (takeWhile ?nd pre @ dropWhile ?nd pre)" by simp
    also have "\<dots> = last (dropWhile ?nd pre)" using ne by (rule last_appendR)
    finally have "last pre = last (x # b)" using xb by simp
    then have b: "b = [] \<or> d (last b)" using dl by (cases "b = []") auto
    have "length (dropWhile ?nd s) \<le> length s" by (rule length_dropWhile_le)
    then have "length (b @ t @ post) < length s" using dw xb by simp
    with "1.IH" b "1.prems"(3) have "t \<in> set (re_split d (b @ t @ post))" by blast
    moreover have "re_split d s = takeWhile ?nd s # re_split d (b @ t @ post)"
      using re_split_unfold [of d s] dw xb by simp
    ultimately show ?thesis by simp
  qed
qed

lemma last_take_nth: "0 < i \<Longrightarrow> i \<le> length s \<Longrightarrow> last (take i s) = s ! (i - 1)"
  by (cases s) (auto simp: last_conv_nth min_def)

lemma occurs_as_whole_token_iff:
  "occurs_as_whole_token word s \<longleftrightarrow>
   (\<exists>pre post. s = pre @ word @ post \<and> (pre = [] \<or> token_delimiter (last pre)) \<and>
      (post = [] \<or> token_delimiter (hd post)))"
proof
  assume "occurs_as_whole_token word s"
  then obtain i where "whole_token_at word s i"
    unfolding occurs_as_whole_token_def by blast
  then have i: "i + length word \<le> length s" "take (length word) (drop i s) = word"
    "i = 0 \<or> token_delimiter (s ! (i - 1))"
    "i + length word = length s \<or> token_delimiter (s ! (i + length word))"
    unfolding whole_token_at_def by blast+
  let ?pre = "take i s" and ?post = "drop (i + length word) s"
  have "s = ?pre @ take (length word) (drop i s) @ drop (length word) (drop i s)"
    by (simp only: append_take_drop_id)
  then have 1: "s = ?pre @ word @ ?post" using i(2) by (simp add: add.commute)
  have 2: "?pre = [] \<or> token_delimiter (last ?pre)"
    using i(1,3) by (cases "i = 0") (auto simp: last_take_nth)
  have 3: "?post = [] \<or> token_delimiter (hd ?post)"
    using i(1,4) by (cases "i + length word = length s") (auto simp: hd_drop_conv_nth)
  from 1 2 3 show "\<exists>pre post. s = pre @ word @ post \<and> (pre = [] \<or> token_delimiter (last pre)) \<and>
      (post = [] \<or> token_delimiter (hd post))" by blast
next
  assume "\<exists>pre post. s = pre @ word @ post \<and> (pre = [] \<or> token_delimiter (last pre)) \<and>
      (post = [] \<or> token_delimiter (hd post))"
  then obtain pre post where s: "s = pre @ word @ post"
    and pre: "pre = [] \<or> token_delimiter (last pre)"
    and post: "post = [] \<or> token_delimiter (hd post)" by blast
  have a: "length pre = 0 \<or> token_delimiter (s ! (length pre - 1))"
    using pre s by (cases "pre = []") (auto simp: nth_append last_conv_nth)
  have b: "length pre + length word = length s \<or>
      token_delimiter (s ! (length pre + length word))"
    using post s by (cases post) (auto simp: nth_append)
  have "whole_token_at word s (length pre)"
    unfolding whole_token_at_def using a b s by simp
  moreover have "length pre \<in> set [0..<Suc (length s)]" using s by simp
  ultimately show "occurs_as_whole_token word s"
    unfolding occurs_as_whole_token_def by blast
qed

lemma token_iff_occurs:
  "\<forall>c\<in>set word. \<not> token_delimiter c \<Longrightarrow>
   word \<in> tokens s \<longleftrightarrow> occurs_as_whole_token word s"
  unfolding tokens_def occurs_as_whole_token_iff
  using re_split_member_bounded [of word token_delimiter s]
    bounded_re_split_member [of word token_delimiter s]
  by blast

lemma dangerous_no_delimiter:
  "keyword \<in> set dangerous_keywords \<Longrightarrow> \<forall>c\<in>set keyword. \<not> token_delimiter c"
  by (auto simp: dangerous_keywords_def token_delimiter_def py_isspace_def)

lemma find_first:
  "\<forall>x\<in>set before. \<not> P x \<Longrightarrow> P k \<Longrightarrow> find P (before @ k # rest) = Some k"
  by (induction before) auto

lemma token_of_statement:
  assumes "keyword \<in> set dangerous_keywords"
  shows "keyword \<in> tokens (py_upper (py_strip q)) \<longleftrightarrow>
     occurs_as_whole_token keyword (py_upper q)"
  using assms dangerous_token_strip [of keyword q]
    token_iff_occurs [OF dangerous_no_delimiter [OF assms], of "py_upper q"]
  by simp

lemma first_dangerous_first_listed:
  assumes "dangerous_keywords = before @ keyword # rest"
    and "occurs_as_whole_token keyword (py_upper q)"
    and "\<forall>k\<in>set before. \<not> occurs_as_whole_token k (py_upper q)"
  shows "first_dangerous (py_upper (py_strip q)) = Some keyword"
proof -
  have "set dangerous_keywords = set (before @ keyword # rest)"
    using assms(1) by (rule arg_cong)
  then have in_list: "keyword \<in> set dangerous_keywords" "set before \<subseteq> set dangerous_keywords"
    by auto
  have "keyword \<in> tokens (py_upper (py_strip q))"
    using in_list(1) assms(2) by (simp add: token_of_statement)
  moreover have "\<forall>k\<in>set before. k \<notin> tokens (py_upper (py_strip q))"
    using in_list(2) assms(3) by (auto simp: token_of_statement)
  ultimately show ?thesis
    unfolding first_dangerous_def assms(1) by (intro find_first) simp_all
qed

lemma first_dangerous_None_occurs:
  "first_dangerous (py_upper (py_strip q)) = None \<longleftrightarrow>
   (\<forall>k\<in>set dangerous_keywords. \<not> occurs_as_whole_token k (py_upper q))"
  by (simp add: first_dangerous_None token_of_statement)

text \<open>
  Two statements, evaluated: one with a DROP after a semicolon, one with a column
  \<^verbatim>\<open>created_at\<close>.
\<close>

lemma drop_modelled: "modelled_text ''SELECT id FROM Accounts; DROP TABLE Accounts''"
  by code_simp

lemma drop_prefix:
  "prefix ''SELECT'' (py_upper (py_strip ''SELECT id FROM Accounts; DROP TABLE Accounts''))"
  by code_simp

lemma drop_occurs:
  "occurs_as_whole_token ''DROP'' (py_upper ''SELECT id FROM Accounts; DROP TABLE Accounts'')"
  by code_simp

lemma drop_is_first: "dangerous_keywords = [] @ ''DROP'' # tl dangerous_keywords"
  by code_simp

lemma created_modelled: "modelled_text ''SELECT created_at FROM Orders''"
  by code_simp

lemma created_prefix: "prefix ''SELECT'' (py_upper (py_strip ''SELECT created_at FROM Orders''))"
  by code_simp

lemma created_inside:
  "''CREATE'' \<in> set dangerous_keywords \<and>
   occurs_only_inside_longer_words ''CREATE'' (py_upper ''SELECT created_at FROM Orders'')"
  by code_simp

lemma created_no_token:
  "\<forall>k\<in>set dangerous_keywords.
     \<not> occurs_as_whole_token k (py_upper ''SELECT created_at FROM Orders'')"
  by code_simp

lemma created_top_100:
  "add_top ''SELECT created_at FROM Orders'' (py_upper (py_strip ''SELECT created_at FROM Orders''))
     (min (max 1 100) 1000) = ''SELECT TOP 100 created_at FROM Orders''"
  by code_simp

text \<open>A no-break space separates tokens like any other whitespace.\<close>

lemma no_break_space_separates_tokens:
  "read_data accounts_db (PStr (''SELECT 1'' @ [CHR 0xA0] @ ''DROP TABLE t'')) (PInt 100) =
     (Inr (ErrorResult ''Query contains prohibited keyword: DROP''), [])"
  by code_simp

text \<open>
  Claim C1, as the specification states it: whenever a denylisted keyword is a whole
  token of a statement that passes the prefix test, the statement is rejected with an
  error naming that keyword. In the statement below UPDATE is a whole token, but so is
  DROP, which comes earlier in the list of line 130: the loop of lines 133 to 138 returns
  at the first keyword of the list that is a token, so the error names DROP and not
  UPDATE.
\<close>

theorem second_keyword_not_named_counterexample:
  "modelled_text ''SELECT 1; UPDATE t SET x = 1; DROP TABLE t'' \<and>
   prefix ''SELECT'' (py_upper (py_strip ''SELECT 1; UPDATE t SET x = 1; DROP TABLE t'')) \<and>
   ''UPDATE'' \<in> set dangerous_keywords \<and>
   ''UPDATE'' \<in> tokens (py_upper ''SELECT 1; UPDATE t SET x = 1; DROP TABLE t'') \<and>
   occurs_as_whole_token ''UPDATE'' (py_upper ''SELECT 1; UPDATE t SET x = 1; DROP TABLE t'') \<and>
   read_data accounts_db (PStr ''SELECT 1; UPDATE t SET x = 1; DROP TABLE t'') (PInt 100) =
     (Inr (ErrorResult ''Query contains prohibited keyword: DROP''), []) \<and>
   fst (read_data accounts_db (PStr ''SELECT 1; UPDATE t SET x = 1; DROP TABLE t'') (PInt 100))
     \<noteq> Inr (ErrorResult ''Query contains prohibited keyword: UPDATE'')"
  by code_simp

text \<open>
  Claim C1, amended: let a statement pass the SELECT prefix test. If a keyword of the
  denylist is a whole token of the upper-cased statement (it stands between delimiters:
  whitespace, the characters \<^verbatim>\<open>; ( )\<close>, or the ends of the statement) and no
  keyword listed before it is one, then \<^verbatim>\<open>read_data\<close> returns the prohibited-keyword
  error naming that keyword, and the data store is not touched; so whenever some
  denylisted keyword is a whole token the statement is rejected, naming the first such
  keyword in the order of the list. If a denylisted word occurs only inside longer
  words, as CREATE does in \<^verbatim>\<open>CREATED_AT\<close>, the statement is never rejected naming that
  word; and if no denylisted keyword is a whole token, the result is no
  prohibited-keyword error at all and, with an integer limit, the statement goes on to
  the data store.
\<close>

theorem denylist_names_first_whole_token:
  assumes "modelled_text q"
    and "prefix ''SELECT'' (py_upper (py_strip q))"
  shows "(dangerous_keywords = before @ keyword # rest \<and>
          occurs_as_whole_token keyword (py_upper q) \<and>
          (\<forall>k\<in>set before. \<not> occurs_as_whole_token k (py_upper q)) \<longrightarrow>
            read_data db (PStr q) limit =
              (Inr (ErrorResult (''Query contains prohibited keyword: '' @ keyword)), [])) \<and>
         (keyword \<in> set dangerous_keywords \<and> occurs_as_whole_token keyword (py_upper q) \<longrightarrow>
            (\<exists>k\<in>set dangerous_keywords. occurs_as_whole_token k (py_upper q) \<and>
               read_data db (PStr q) limit =
                 (Inr (ErrorResult (''Query contains prohibited keyword: '' @ k)), []))) \<and>
         (keyword \<in> set dangerous_keywords \<and>
          occurs_only_inside_longer_words keyword (py_upper q) \<longrightarrow>
            fst (read_data db (PStr q) limit) \<noteq>
              Inr (ErrorResult (''Query contains prohibited keyword: '' @ keyword))) \<and>
         ((\<forall>k\<in>set dangerous_keywords. \<not> occurs_as_whole_token k (py_upper q)) \<longrightarrow>
            (\<forall>k. fst (read_data db (PStr q) limit) \<noteq>
               Inr (ErrorResult (''Query contains prohibited keyword: '' @ k))) \<and>
            read_data db (PStr q) (PInt L) =
              execute_read db (add_top q (py_upper (py_strip q)) (min (max 1 L) 1000)))"
proof (intro conjI impI)
  assume "dangerous_keywords = before @ keyword # rest \<and>
          occurs_as_whole_token keyword (py_upper q) \<and>
          (\<forall>k\<in>set before. \<not> occurs_as_whole_token k (py_upper q))"
  then have "first_dangerous (py_upper (py_strip q)) = Some keyword"
    using first_dangerous_first_listed by blast
  with assms(2) show "read_data db (PStr q) limit =
      (Inr (ErrorResult (''Query contains prohibited keyword: '' @ keyword)), [])"
    by (rule read_data_dangerous)
next
  assume "keyword \<in> set dangerous_keywords \<and> occurs_as_whole_token keyword (py_upper q)"
  then have "first_dangerous (py_upper (py_strip q)) \<noteq> None"
    by (auto simp: first_dangerous_None_occurs)
  then obtain k where k: "first_dangerous (py_upper (py_strip q)) = Some k" by blast
  have "k \<in> set dangerous_keywords" "k \<in> tokens (py_upper (py_strip q))"
    using first_dangerous_Some [OF k] by simp_all
  then have "k \<in> set dangerous_keywords" "occurs_as_whole_token k (py_upper q)"
    by (simp_all add: token_of_statement)
  moreover have "read_data db (PStr q) limit =
      (Inr (ErrorResult (''Query contains prohibited keyword: '' @ k)), [])"
    using assms(2) k by (rule read_data_dangerous)
  ultimately show "\<exists>k\<in>set dangerous_keywords. occurs_as_whole_token k (py_upper q) \<and>
      read_data db (PStr q) limit =
        (Inr (ErrorResult (''Query contains prohibited keyword: '' @ k)), [])"
    by blast
next
  assume a: "keyword \<in> set dangerous_keywords \<and>
      occurs_only_inside_longer_words keyword (py_upper q)"
  show "fst (read_data db (PStr q) limit) \<noteq>
      Inr (ErrorResult (''Query contains prohibited keyword: '' @ keyword))"
  proof (cases "first_dangerous (py_upper (py_strip q))")
    case None
    with assms(2) show ?thesis by (rule read_data_clean_not_keyword_error)
  next
    case (Some k)
    then have "k \<in> tokens (py_upper (py_strip q))" "k \<in> set dangerous_keywords"
      using first_dangerous_Some by blast+
    then have "occurs_as_whole_token k (py_upper q)"
      by (simp add: token_of_statement)
    then have "k \<noteq> keyword"
      using a by (auto simp: occurs_only_inside_longer_words_def)
    then show ?thesis
      using read_data_dangerous [OF assms(2) Some, of db limit] by simp
  qed
next
  assume "\<forall>k\<in>set dangerous_keywords. \<not> occurs_as_whole_token k (py_upper q)"
  then have none: "first_dangerous (py_upper (py_strip q)) = None"
    by (simp add: first_dangerous_None_occurs)
  show "\<forall>k. fst (read_data db (PStr q) limit) \<noteq>
      Inr (ErrorResult (''Query contains prohibited keyword: '' @ k))"
    using read_data_clean_not_keyword_error [OF assms(2) none] by blast
  show "read_data db (PStr q) (PInt L) =
      execute_read db (add_top q (py_upper (py_strip q)) (min (max 1 L) 1000))"
    using assms(2) none by (rule read_data_accepted)
qed

theorem denylist_names_first_whole_token_witness:
  "modelled_text ''SELECT id FROM Accounts; DROP TABLE Accounts'' \<and>
   prefix ''SELECT'' (py_upper (py_strip ''SELECT id FROM Accounts; DROP TABLE Accounts'')) \<and>
   dangerous_keywords = [] @ ''DROP'' # tl dangerous_keywords \<and>
   occurs_as_whole_token ''DROP'' (py_upper ''SELECT id FROM Accounts; DROP TABLE Accounts'') \<and>
   read_data accounts_db (PStr ''SELECT id FROM Accounts; DROP TABLE Accounts'') (PInt 100) =
     (Inr (ErrorResult ''Query contains prohibited keyword: DROP''), []) \<and>
   modelled_text ''SELECT created_at FROM Orders'' \<and>
   prefix ''SELECT'' (py_upper (py_strip ''SELECT created_at FROM Orders'')) \<and>
   ''CREATE'' \<in> set dangerous_keywords \<and>
   occurs_only_inside_longer_words ''CREATE'' (py_upper ''SELECT created_at FROM Orders'') \<and>
   fst (read_data accounts_db (PStr ''SELECT created_at FROM Orders'') (PInt 100)) \<noteq>
     Inr (ErrorResult ''Query contains prohibited keyword: CREATE'') \<and>
   read_data accounts_db (PStr ''SELECT created_at FROM Orders'') (PInt 100) =
     execute_read accounts_db ''SELECT TOP 100 created_at FROM Orders''"
proof -
  note d = denylist_names_first_whole_token [OF drop_modelled drop_prefix,
      where before = "[]" and keyword = "''DROP''" and rest = "tl dangerous_keywords"
        and db = accounts_db and limit = "PInt 100"]
  from d drop_is_first drop_occurs
  have rejected:
    "read_data accounts_db (PStr ''SELECT id FROM Accounts; DROP TABLE Accounts'') (PInt 100) =
       (Inr (ErrorResult (''Query contains prohibited keyword: '' @ ''DROP'')), [])"
    by simp
  note c = denylist_names_first_whole_token [OF created_modelled created_prefix,
      where keyword = "''CREATE''" and db = accounts_db and limit = "PInt 100" and L = 100]
  from c created_inside
  have not_named:
    "fst (read_data accounts_db (PStr ''SELECT created_at FROM Orders'') (PInt 100)) \<noteq>
       Inr (ErrorResult (''Query contains prohibited keyword: '' @ ''CREATE''))"
    by blast
  from c created_no_token
  have passed:
    "read_data accounts_db (PStr ''SELECT created_at FROM Orders'') (PInt 100) =
       execute_read accounts_db
         (add_top ''SELECT created_at FROM Orders''
            (py_upper (py_strip ''SELECT created_at FROM Orders'')) (min (max 1 100) 1000))"
    by blast
  show ?thesis
    using rejected not_named passed [unfolded created_top_100]
      drop_modelled drop_prefix drop_is_first drop_occurs
      created_modelled created_prefix created_inside
    by simp
qed

section \<open>The read-statement test\<close>

lemma execute_read_not_select_error:
  "fst (execute_read db stmt) \<noteq>
     Inr (ErrorResult ''Only SELECT queries are allowed for security reasons.'')"
proof -
  have "read_except e \<noteq>
      Inr (ErrorResult ''Only SELECT queries are allowed for security reasons.'')" for e
    by (cases e) simp_all
  then show ?thesis
    by (simp add: execute_read_def split: sum.splits option.splits)
qed

lemma read_data_select_not_select_error:
  assumes "prefix ''SELECT'' (py_upper (py_strip q))"
  shows "fst (read_data db (PStr q) limit) \<noteq>
     Inr (ErrorResult ''Only SELECT queries are allowed for security reasons.'')"
  using assms execute_read_not_select_error [of db]
  by (simp add: read_data_def Let_def split: sum.splits option.splits)

lemma first_keyword_prefix:
  "first_keyword q = ''SELECT'' \<Longrightarrow> prefix ''SELECT'' (py_upper (py_strip q))"
proof -
  assume k: "first_keyword q = ''SELECT''"
  have "py_upper (py_strip q) =
      py_upper (takeWhile word_char (py_strip q) @ dropWhile word_char (py_strip q))"
    by (simp only: takeWhile_dropWhile_id)
  also have "\<dots> = first_keyword q @ py_upper (dropWhile word_char (py_strip q))"
    by (simp only: py_upper_def first_keyword_def map_append)
  finally show ?thesis using k by (simp add: prefix_def)
qed

lemma lower_first: "first_keyword ''select id from Accounts'' = ''SELECT''"
  by code_simp

lemma lower_modelled: "modelled_text ''select id from Accounts''"
  by code_simp

text \<open>A leading no-break space is trimmed before the test, so the statement passes.\<close>

lemma no_break_space_before_select:
  "snd (read_data accounts_db (PStr (CHR 0xA0 # ''SELECT 1'')) (PInt 100)) =
     [Connect, Execute ''SELECT TOP 100 1'', Close]"
  by code_simp

text \<open>
  Claim C5, as the specification states it: a statement is rejected as not a read
  statement if and only if its first keyword is not SELECT. The first keyword of the
  statement below is SELECTED, not SELECT, and yet the statement is not rejected: it
  passes the test of line 123, which looks at the first six characters only, and a
  statement built from it reaches the data store.
\<close>

theorem prefix_test_accepts_longer_word_counterexample:
  "first_keyword ''SELECTED id FROM Accounts'' = ''SELECTED'' \<and>
   first_keyword ''SELECTED id FROM Accounts'' \<noteq> ''SELECT'' \<and>
   snd (read_data accounts_db (PStr ''SELECTED id FROM Accounts'') (PInt 100)) =
     [Connect, Execute ''SELECT TOP 100ED id FROM Accounts'', Close] \<and>
   fst (read_data accounts_db (PStr ''SELECTED id FROM Accounts'') (PInt 100)) \<noteq>
     Inr (ErrorResult ''Only SELECT queries are allowed for security reasons.'')"
  by code_simp

text \<open>
  Claim C5, amended: \<^verbatim>\<open>read_data\<close> rejects a statement with the not-a-read-statement
  message if and only if the trimmed, upper-cased statement does not start with the six
  characters SELECT. So a statement whose first keyword is SELECT is never rejected with
  that message, while a statement whose first word only begins with SELECT passes the
  test as well.
\<close>

theorem rejected_iff_no_select_prefix:
  assumes "modelled_text q"
  shows "(fst (read_data db (PStr q) limit) =
      Inr (ErrorResult ''Only SELECT queries are allowed for security reasons.'')) =
   (\<not> prefix ''SELECT'' (py_upper (py_strip q))) \<and>
   (first_keyword q = ''SELECT'' \<longrightarrow>
      fst (read_data db (PStr q) limit) \<noteq>
        Inr (ErrorResult ''Only SELECT queries are allowed for security reasons.''))"
  using read_data_select_not_select_error [of q db limit] read_data_not_select [of q db limit]
    first_keyword_prefix [of q]
  by auto

theorem rejected_iff_no_select_prefix_witness:
  "modelled_text ''select id from Accounts'' \<and>
   first_keyword ''select id from Accounts'' = ''SELECT'' \<and>
   prefix ''SELECT'' (py_upper (py_strip ''select id from Accounts'')) \<and>
   fst (read_data accounts_db (PStr ''select id from Accounts'') (PInt 100)) \<noteq>
     Inr (ErrorResult ''Only SELECT queries are allowed for security reasons.'')"
  using rejected_iff_no_select_prefix [OF lower_modelled, of accounts_db "PInt 100"]
    lower_modelled lower_first first_keyword_prefix [OF lower_first]
  by blast

section \<open>Errors of the data store\<close>

lemma failing_db_connects: "create_connection failing_db = Inr ()"
  by (simp add: failing_db_def)
lemma failing_db_execute:
  "execute_query failing_db stmt = Inl (PyodbcError ''Invalid object name Accounts'')"
  by (simp add: failing_db_def)
lemma failing_db_columns:
  "information_schema_columns failing_db schema table_name =
     Inl (PyodbcError ''Login failed for user reader'')"
  by (simp add: failing_db_def)

lemma count_denied_db_connects: "create_connection count_denied_db = Inr ()"
  by (simp add: count_denied_db_def)

lemma count_denied_db_columns:
  "information_schema_columns count_denied_db (PStr ''dbo'') (PStr ''Accounts'') =
     Inr [\<lparr> COLUMN_NAME = CStr ''id'', DATA_TYPE = CStr ''int'',
            CHARACTER_MAXIMUM_LENGTH = CNull, IS_NULLABLE = CStr ''NO'',
            COLUMN_DEFAULT = CNull, IS_PRIMARY_KEY = CStr ''YES'' \<rparr>]"
  by (simp add: count_denied_db_def)

lemma count_denied_db_execute:
  "execute_query count_denied_db stmt = Inl (PyodbcError ''The SELECT permission was denied'')"
  by (simp add: count_denied_db_def)

text \<open>
  Claim C3, as the specification states it: the result never exposes the message of a
  data-access error verbatim. It does: the handlers of lines 104 and 178 put
  \<^verbatim>\<open>str(e)\<close> into the message, so the driver's text is a substring of what the caller
  receives.
\<close>

theorem driver_message_exposed_counterexample:
  "call_tool failing_db ''read_data'' [''query'' \<mapsto> PStr ''SELECT * FROM Accounts''] =
     (ErrorResult ''Query execution failed: Invalid object name Accounts. You may not have permission to access this data.'',
      [Connect, Execute ''SELECT TOP 100 * FROM Accounts'', Close]) \<and>
   execute_query failing_db ''SELECT TOP 100 * FROM Accounts'' =
     Inl (PyodbcError ''Invalid object name Accounts'') \<and>
   py_in ''Invalid object name Accounts''
     (message_of (fst (call_tool failing_db ''read_data''
                         [''query'' \<mapsto> PStr ''SELECT * FROM Accounts'']))) \<and>
   call_tool failing_db ''describe_table'' [''table_name'' \<mapsto> PStr ''Accounts''] =
     (ErrorResult ''Database error: Login failed for user reader'',
      [Connect, ExecuteColumns (PStr ''dbo'') (PStr ''Accounts''), Close])"
  by code_simp

text \<open>
  Claim C3, amended: a \<^verbatim>\<open>pyodbc.Error\<close> never leaves \<^verbatim>\<open>read_data\<close> or
  \<^verbatim>\<open>describe_table\<close> as an exception. When acquiring the connection or executing the
  statement raises one with message m, \<^verbatim>\<open>read_data\<close> returns the error result
  "Query execution failed: m. You may not have permission to access this data."; when
  acquiring the connection or the column query raises one, \<^verbatim>\<open>describe_table\<close> returns
  "Database error: m": the error is caught and wrapped, and the driver's message is part
  of the result, verbatim. The one data-access failure that gives no error result is the
  row-count query of \<^verbatim>\<open>describe_table\<close> (lines 90 to 94): whatever it raises is
  swallowed, the result has status success, its \<^verbatim>\<open>row_count\<close> is the fixed text
  "Unknown (no permission or table doesn't exist)", and the driver's message is dropped.
\<close>

theorem driver_errors_caught_and_wrapped:
  "(fst (read_data db query limit) \<noteq> Inl (PyodbcError m)) \<and>
   (fst (describe_table db table_name schema) \<noteq> Inl (PyodbcError m)) \<and>
   (modelled_text q \<and> prefix ''SELECT'' (py_upper (py_strip q)) \<and>
    first_dangerous (py_upper (py_strip q)) = None \<and>
    (create_connection db = Inl (PyodbcError m) \<or>
     create_connection db = Inr () \<and>
     execute_query db (add_top q (py_upper (py_strip q)) (min (max 1 L) 1000)) =
       Inl (PyodbcError m)) \<longrightarrow>
    fst (read_data db (PStr q) (PInt L)) =
      Inr (ErrorResult (''Query execution failed: '' @ m @
                        ''. You may not have permission to access this data.''))) \<and>
   (create_connection db = Inl (PyodbcError m) \<or>
    create_connection db = Inr () \<and>
    information_schema_columns db schema table_name = Inl (PyodbcError m) \<longrightarrow>
    fst (describe_table db table_name schema) = Inr (ErrorResult (''Database error: '' @ m))) \<and>
   (create_connection db = Inr () \<and>
    information_schema_columns db schema table_name = Inr fetched_rows \<and>
    fetched_rows \<noteq> [] \<and>
    execute_query db (count_statement schema table_name) = Inl e \<longrightarrow>
    describe_table db table_name schema =
      (Inr (DescribeSuccess schema table_name (map make_col_info fetched_rows)
              (CStr ''Unknown (no permission or table doesn't exist)'')),
       [Connect, ExecuteColumns schema table_name,
        Execute (count_statement schema table_name), Close]))"
proof -
  have re: "read_except e \<noteq> Inl (PyodbcError m)" for e by (cases e) simp_all
  have de: "describe_except e \<noteq> Inl (PyodbcError m)" for e by (cases e) simp_all
  have ex: "fst (execute_read db stmt) \<noteq> Inl (PyodbcError m)" for stmt
    using re by (simp add: execute_read_def split: sum.splits option.splits)
  have el: "enforce_limit limit \<noteq> Inl (PyodbcError m)" by (cases limit) simp_all
  have 1: "fst (read_data db query limit) \<noteq> Inl (PyodbcError m)"
    using ex el by (cases query) (auto simp: read_data_def Let_def split: option.splits sum.splits)
  have 2: "fst (describe_table db table_name schema) \<noteq> Inl (PyodbcError m)"
    using de by (simp add: describe_table_def Let_def split: sum.splits)
  have 3: "fst (read_data db (PStr q) (PInt L)) =
      Inr (ErrorResult (''Query execution failed: '' @ m @
                        ''. You may not have permission to access this data.''))"
    if "prefix ''SELECT'' (py_upper (py_strip q))"
      and "first_dangerous (py_upper (py_strip q)) = None"
      and "create_connection db = Inl (PyodbcError m) \<or>
     create_connection db = Inr () \<and>
     execute_query db (add_top q (py_upper (py_strip q)) (min (max 1 L) 1000)) =
       Inl (PyodbcError m)"
    using that by (auto simp: read_data_accepted execute_read_def)
  have 4: "fst (describe_table db table_name schema) = Inr (ErrorResult (''Database error: '' @ m))"
    if "create_connection db = Inl (PyodbcError m) \<or>
    create_connection db = Inr () \<and>
    information_schema_columns db schema table_name = Inl (PyodbcError m)"
    using that by (auto simp: describe_table_def)
  have 5: "describe_table db table_name schema =
      (Inr (DescribeSuccess schema table_name (map make_col_info fetched_rows)
              (CStr ''Unknown (no permission or table doesn't exist)'')),
       [Connect, ExecuteColumns schema table_name,
        Execute (count_statement schema table_name), Close])"
    if "create_connection db = Inr ()"
      and "information_schema_columns db schema table_name = Inr fetched_rows"
      and "fetched_rows \<noteq> []"
      and "execute_query db (count_statement schema table_name) = Inl e"
    using that by (simp add: describe_table_def count_rows_def)
  from 1 2 3 4 5 show ?thesis by blast
qed

theorem driver_errors_caught_and_wrapped_witness:
  "modelled_text ''SELECT * FROM Accounts'' \<and>
   prefix ''SELECT'' (py_upper (py_strip ''SELECT * FROM Accounts'')) \<and>
   first_dangerous (py_upper (py_strip ''SELECT * FROM Accounts'')) = None \<and>
   create_connection failing_db = Inr () \<and>
   execute_query failing_db
     (add_top ''SELECT * FROM Accounts'' (py_upper (py_strip ''SELECT * FROM Accounts''))
        (min (max 1 100) 1000)) = Inl (PyodbcError ''Invalid object name Accounts'') \<and>
   fst (read_data failing_db (PStr ''SELECT * FROM Accounts'') (PInt 100)) =
     Inr (ErrorResult ''Query execution failed: Invalid object name Accounts. You may not have permission to access this data.'') \<and>
   information_schema_columns failing_db (PStr ''dbo'') (PStr ''Accounts'') =
     Inl (PyodbcError ''Login failed for user reader'') \<and>
   fst (describe_table failing_db (PStr ''Accounts'') (PStr ''dbo'')) =
     Inr (ErrorResult ''Database error: Login failed for user reader'') \<and>
   create_connection count_denied_db = Inr () \<and>
   execute_query count_denied_db (count_statement (PStr ''dbo'') (PStr ''Accounts'')) =
     Inl (PyodbcError ''The SELECT permission was denied'') \<and>
   describe_table count_denied_db (PStr ''Accounts'') (PStr ''dbo'') =
     (Inr (DescribeSuccess (PStr ''dbo'') (PStr ''Accounts'')
             [\<lparr> ci_name = CStr ''id'', ci_type = CStr ''int'', ci_max_length = CNull,
                ci_nullable = False, ci_default = CNull, ci_is_primary_key = True \<rparr>]
             (CStr ''Unknown (no permission or table doesn't exist)'')),
      [Connect, ExecuteColumns (PStr ''dbo'') (PStr ''Accounts''),
       Execute ''SELECT COUNT(*) as row_count FROM [dbo].[Accounts]'', Close])"
proof -
  have r: "fst (read_data failing_db (PStr ''SELECT * FROM Accounts'') (PInt 100)) =
     Inr (ErrorResult (''Query execution failed: '' @ ''Invalid object name Accounts'' @
                       ''. You may not have permission to access this data.''))"
    using driver_errors_caught_and_wrapped
        [where db = failing_db and m = "''Invalid object name Accounts''"
           and q = "''SELECT * FROM Accounts''" and L = 100]
      all_accounts_modelled all_accounts_prefix all_accounts_clean failing_db_connects
      failing_db_execute
    by blast
  have d: "fst (describe_table failing_db (PStr ''Accounts'') (PStr ''dbo'')) =
     Inr (ErrorResult (''Database error: '' @ ''Login failed for user reader''))"
    using driver_errors_caught_and_wrapped
        [where db = failing_db and m = "''Login failed for user reader''"
           and table_name = "PStr ''Accounts''" and schema = "PStr ''dbo''"]
      failing_db_connects failing_db_columns
    by blast
  have c: "describe_table count_denied_db (PStr ''Accounts'') (PStr ''dbo'') =
     (Inr (DescribeSuccess (PStr ''dbo'') (PStr ''Accounts'')
             (map make_col_info
                [\<lparr> COLUMN_NAME = CStr ''id'', DATA_TYPE = CStr ''int'',
                   CHARACTER_MAXIMUM_LENGTH = CNull, IS_NULLABLE = CStr ''NO'',
                   COLUMN_DEFAULT = CNull, IS_PRIMARY_KEY = CStr ''YES'' \<rparr>])
             (CStr ''Unknown (no permission or table doesn't exist)'')),
      [Connect, ExecuteColumns (PStr ''dbo'') (PStr ''Accounts''),
       Execute (count_statement (PStr ''dbo'') (PStr ''Accounts'')), Close])"
    using driver_errors_caught_and_wrapped
        [where db = count_denied_db and table_name = "PStr ''Accounts''"
           and schema = "PStr ''dbo''"
           and e = "PyodbcError ''The SELECT permission was denied''"
           and fetched_rows = "[\<lparr> COLUMN_NAME = CStr ''id'', DATA_TYPE = CStr ''int'',
                   CHARACTER_MAXIMUM_LENGTH = CNull, IS_NULLABLE = CStr ''NO'',
                   COLUMN_DEFAULT = CNull, IS_PRIMARY_KEY = CStr ''YES'' \<rparr>]"]
      count_denied_db_connects count_denied_db_columns count_denied_db_execute
    by blast
  show ?thesis
    using r d c all_accounts_modelled all_accounts_prefix all_accounts_clean
      failing_db_connects failing_db_execute failing_db_columns count_denied_db_connects
      count_denied_db_execute
    by (simp add: make_col_info_def count_statement_def)
qed

section \<open>Request identifiers of a session\<close>

lemma send_request_id:
  "request_id (snd (send_request c method params drain_ok)) = request_id c + 1"
  by (simp add: send_request_def Let_def split: option.splits)

lemma send_request_writer:
  "writer (snd (send_request c method params drain_ok)) =
     (case writer c of None \<Rightarrow> None
      | Some frames \<Rightarrow> Some (frames @ [\<lparr> jsonrpc = ''2.0'', req_id = request_id c + 1,
                                         req_method = method, req_params = params \<rparr>]))"
  by (simp add: send_request_def Let_def split: option.splits)

lemma upt_shift: "[0..<Suc n] = 0 # map Suc [0..<n]"
  by (simp add: upt_conv_Cons map_Suc_upt del: upt_Suc)

lemma send_all_ids:
  "fst (send_all c calls) = map (\<lambda>k. request_id c + 1 + int k) [0..<length calls]"
proof (induction calls arbitrary: c)
  case Nil
  then show ?case by simp
next
  case (Cons call calls)
  obtain name payload ok where call: "call = (name, payload, ok)"
    by (cases call) auto
  let ?c' = "snd (send_request c name payload ok)"
  have "fst (send_all c (call # calls)) = request_id ?c' # fst (send_all ?c' calls)"
    by (simp add: call split: prod.splits)
  also have "\<dots> = (request_id c + 1) # map (\<lambda>k. request_id c + 1 + 1 + int k) [0..<length calls]"
    by (simp add: Cons.IH send_request_id)
  also have "\<dots> = map (\<lambda>k. request_id c + 1 + int k) [0..<length (call # calls)]"
    by (simp add: upt_shift comp_def del: upt_Suc)
  finally show ?case .
qed

lemma send_all_written:
  "writer c = Some frames \<Longrightarrow>
   \<exists>new. writer (snd (send_all c calls)) = Some (frames @ new) \<and>
         map req_id new = fst (send_all c calls)"
proof (induction calls arbitrary: c frames)
  case Nil
  then show ?case by simp
next
  case (Cons call calls)
  obtain name payload ok where call: "call = (name, payload, ok)"
    by (cases call) auto
  let ?c' = "snd (send_request c name payload ok)"
  let ?r = "\<lparr> jsonrpc = ''2.0'', req_id = request_id c + 1,
             req_method = name, req_params = payload \<rparr>"
  have w: "writer ?c' = Some (frames @ [?r])"
    using Cons.prems by (simp add: send_request_writer)
  from Cons.IH [OF w] obtain new where
    new: "writer (snd (send_all ?c' calls)) = Some ((frames @ [?r]) @ new)"
      "map req_id new = fst (send_all ?c' calls)"
    by blast
  have s: "snd (send_all c (call # calls)) = snd (send_all ?c' calls)"
    by (simp add: call split: prod.splits)
  have f: "fst (send_all c (call # calls)) = request_id ?c' # fst (send_all ?c' calls)"
    by (simp add: call split: prod.splits)
  have "writer (snd (send_all c (call # calls))) = Some (frames @ (?r # new))"
    using new(1) s by simp
  moreover have "map req_id (?r # new) = fst (send_all c (call # calls))"
    using new(2) f by (simp add: send_request_id)
  ultimately show ?case by blast
qed

lemma ids_sorted: "sorted_wrt (<) (map (\<lambda>k. int k + 1) [0..<n])"
  by (induction n) (auto simp: sorted_wrt_append)

lemma ids_distinct: "distinct (map (\<lambda>k. int k + 1) [0..<n])"
  by (simp add: distinct_map inj_on_def)

text \<open>
  Claim C9: the identifiers a session gives to its requests are generated by the session
  (\<^verbatim>\<open>_send_request\<close> takes none from outside), each one more than the one before. From
  a new client whose pipes are open, the k-th request (counting from 0) gets identifier
  k + 1, so the identifiers start at 1; the requests written to the pipe carry exactly
  these identifiers, which are strictly increasing and pairwise distinct.
\<close>

theorem request_ids_count_up_from_one:
  "fst (send_all c calls) = map (\<lambda>k. request_id c + 1 + int k) [0..<length calls] \<and>
   fst (send_all (open_pipes client_init) calls) = map (\<lambda>k. int k + 1) [0..<length calls] \<and>
   map req_id (written (snd (send_all (open_pipes client_init) calls))) =
     map (\<lambda>k. int k + 1) [0..<length calls] \<and>
   sorted_wrt (<) (map req_id (written (snd (send_all (open_pipes client_init) calls)))) \<and>
   distinct (map req_id (written (snd (send_all (open_pipes client_init) calls))))"
proof -
  let ?c = "open_pipes client_init :: 'a mcp_client"
  have ids: "fst (send_all ?c calls) = map (\<lambda>k. int k + 1) [0..<length calls]"
    by (simp add: send_all_ids open_pipes_def client_init_def add.commute)
  have "writer ?c = Some []" by (simp add: open_pipes_def)
  from send_all_written [OF this, of calls] obtain new where
    "writer (snd (send_all ?c calls)) = Some new" "map req_id new = fst (send_all ?c calls)"
    by auto
  then have w: "map req_id (written (snd (send_all ?c calls))) =
      map (\<lambda>k. int k + 1) [0..<length calls]"
    using ids by (simp add: written_def)
  show ?thesis
    unfolding w using ids ids_sorted ids_distinct send_all_ids [of c calls] by simp
qed

end
